theory Spec2Isabelle
  imports Complex_Main
begin

section \<open>JavaScript numbers\<close>

text \<open>
  Every number of \<^verbatim>\<open>realtime_tcn.js\<close> is an IEEE double. The embedding keeps the
  special values the code tests for (\<^verbatim>\<open>NaN\<close>, \<^verbatim>\<open>Infinity\<close>, \<^verbatim>\<open>-Infinity\<close>) and
  idealises the finite ones as reals: rounding, overflow of finite arithmetic, the
  sign of zero and the narrowing of \<^verbatim>\<open>Float32Array\<close> stores are not modelled.
  Counters that only ever hold small integers are \<open>nat\<close> or \<open>int\<close>.
\<close>

datatype jsnum = Fin real | NaN | PosInf | NegInf

fun isFinite :: "jsnum \<Rightarrow> bool" where
  "isFinite (Fin x) = True"
| "isFinite v = False"

fun isNaN :: "jsnum \<Rightarrow> bool" where
  "isNaN NaN = True"
| "isNaN v = False"

text \<open>Relational operators: every comparison with \<^verbatim>\<open>NaN\<close> is false.\<close>

fun js_lt :: "jsnum \<Rightarrow> jsnum \<Rightarrow> bool" where
  "js_lt NaN b = False"
| "js_lt a NaN = False"
| "js_lt (Fin x) (Fin y) = (x < y)"
| "js_lt (Fin x) PosInf = True"
| "js_lt (Fin x) NegInf = False"
| "js_lt PosInf b = False"
| "js_lt NegInf NegInf = False"
| "js_lt NegInf b = True"

fun js_le :: "jsnum \<Rightarrow> jsnum \<Rightarrow> bool" where
  "js_le NaN b = False"
| "js_le a NaN = False"
| "js_le (Fin x) (Fin y) = (x \<le> y)"
| "js_le (Fin x) PosInf = True"
| "js_le (Fin x) NegInf = False"
| "js_le PosInf PosInf = True"
| "js_le PosInf b = False"
| "js_le NegInf b = True"

definition js_gt :: "jsnum \<Rightarrow> jsnum \<Rightarrow> bool" where
  "js_gt a b = js_lt b a"

definition js_ge :: "jsnum \<Rightarrow> jsnum \<Rightarrow> bool" where
  "js_ge a b = js_le b a"

text \<open>Unary minus and \<^verbatim>\<open>Math.abs\<close>.\<close>

fun js_neg :: "jsnum \<Rightarrow> jsnum" where
  "js_neg (Fin x) = Fin (- x)"
| "js_neg NaN = NaN"
| "js_neg PosInf = NegInf"
| "js_neg NegInf = PosInf"

fun js_abs :: "jsnum \<Rightarrow> jsnum" where
  "js_abs (Fin x) = Fin \<bar>x\<bar>"
| "js_abs NaN = NaN"
| "js_abs v = PosInf"

text \<open>Addition, subtraction, multiplication and division with the IEEE special cases.\<close>

fun js_add :: "jsnum \<Rightarrow> jsnum \<Rightarrow> jsnum" where
  "js_add NaN b = NaN"
| "js_add a NaN = NaN"
| "js_add (Fin x) (Fin y) = Fin (x + y)"
| "js_add (Fin x) b = b"
| "js_add a (Fin y) = a"
| "js_add PosInf PosInf = PosInf"
| "js_add NegInf NegInf = NegInf"
| "js_add a b = NaN"

definition js_sub :: "jsnum \<Rightarrow> jsnum \<Rightarrow> jsnum" where
  "js_sub a b = js_add a (js_neg b)"

definition inf_of_sign :: "bool \<Rightarrow> jsnum" where
  "inf_of_sign positive = (if positive then PosInf else NegInf)"

fun js_mul :: "jsnum \<Rightarrow> jsnum \<Rightarrow> jsnum" where
  "js_mul NaN b = NaN"
| "js_mul a NaN = NaN"
| "js_mul (Fin x) (Fin y) = Fin (x * y)"
| "js_mul (Fin x) PosInf = (if x = 0 then NaN else inf_of_sign (0 < x))"
| "js_mul (Fin x) NegInf = (if x = 0 then NaN else inf_of_sign (x < 0))"
| "js_mul PosInf (Fin y) = (if y = 0 then NaN else inf_of_sign (0 < y))"
| "js_mul NegInf (Fin y) = (if y = 0 then NaN else inf_of_sign (y < 0))"
| "js_mul PosInf PosInf = PosInf"
| "js_mul NegInf NegInf = PosInf"
| "js_mul a b = NegInf"

fun js_div :: "jsnum \<Rightarrow> jsnum \<Rightarrow> jsnum" where
  "js_div NaN b = NaN"
| "js_div a NaN = NaN"
| "js_div (Fin x) (Fin y) =
     (if y = 0 then (if x = 0 then NaN else inf_of_sign (0 < x)) else Fin (x / y))"
| "js_div (Fin x) b = Fin 0"
| "js_div PosInf (Fin y) = inf_of_sign (0 \<le> y)"
| "js_div NegInf (Fin y) = inf_of_sign (y < 0)"
| "js_div a b = NaN"

text \<open>\<^verbatim>\<open>Math.max\<close> of two numbers and \<^verbatim>\<open>Math.sqrt\<close>.\<close>

fun js_max :: "jsnum \<Rightarrow> jsnum \<Rightarrow> jsnum" where
  "js_max NaN b = NaN"
| "js_max a NaN = NaN"
| "js_max a b = (if js_lt a b then b else a)"

fun js_sqrt :: "jsnum \<Rightarrow> jsnum" where
  "js_sqrt (Fin x) = (if x < 0 then NaN else Fin (sqrt x))"
| "js_sqrt NaN = NaN"
| "js_sqrt PosInf = PosInf"
| "js_sqrt NegInf = NaN"

text \<open>\<^verbatim>\<open>function finiteOr(v, def){ return Number.isFinite(v) ? v : def; }\<close>\<close>

definition finiteOr :: "jsnum \<Rightarrow> real \<Rightarrow> jsnum" where
  "finiteOr v def = (if isFinite v then v else Fin def)"

section \<open>Timing and constants\<close>

definition TARGET_FPS :: real where "TARGET_FPS = 15"
definition DT :: real where "DT = 1 / TARGET_FPS"
definition TCN_WINDOW :: nat where "TCN_WINDOW = 90"

definition EYE_CLOSE_T :: real where "EYE_CLOSE_T = 0.40"
definition FRM_2P5S :: nat where "FRM_2P5S = nat (round (0.8 * TARGET_FPS))"
definition BLINK_MIN_F :: nat where "BLINK_MIN_F = 2"
definition BLINK_MAX_F :: nat where "BLINK_MAX_F = 6"
definition EYE_DEBOUNCE_ON_F :: nat where "EYE_DEBOUNCE_ON_F = 2"
definition EYE_DEBOUNCE_OFF_F :: nat where "EYE_DEBOUNCE_OFF_F = 2"
definition BLINK_LOCK_FRM :: int where "BLINK_LOCK_FRM = round (2.0 * TARGET_FPS)"

definition PER_30S :: nat where "PER_30S = nat \<lfloor>30 * TARGET_FPS\<rfloor>"

definition MOUTH_ON_T :: real where "MOUTH_ON_T = 0.55"
definition MOUTH_OFF_T :: real where "MOUTH_OFF_T = 0.45"
definition MOUTH_PROLONG_S :: real where "MOUTH_PROLONG_S = 1.3"
definition MOUTH_SHORT_MIN_S :: real where "MOUTH_SHORT_MIN_S = 0.10"
definition MOUTH_SHORT_MAX_S :: real where "MOUTH_SHORT_MAX_S = 0.50"

definition TS_MAX :: real where "TS_MAX = 30"

definition ON_THRESH :: real where "ON_THRESH = 0.65"
definition OFF_THRESH :: real where "OFF_THRESH = 0.55"

definition NORM_SECONDS :: real where "NORM_SECONDS = 10.0"
definition MIN_ACCEPTED :: nat where "MIN_ACCEPTED = 60"

section \<open>Ring buffer with running sum\<close>

text \<open>
  \<^verbatim>\<open>class Ring { constructor(n) { this.n = n; this.buf = new Float32Array(n);
  this.sum = 0; this.count = 0; this.i = 0; } ... }\<close>
  The fields carry the suffix \<open>_ring\<close>. The only ring of the program, \<^verbatim>\<open>rbEyeClosed\<close>,
  receives the samples 0 and 1, which a double and a \<^verbatim>\<open>Float32Array\<close> cell hold exactly,
  as they do every sum of at most 450 of them.
\<close>

record ring =
  n_ring :: nat
  buf_ring :: "real list"
  sum_ring :: real
  count_ring :: nat
  i_ring :: nat

definition Ring_new :: "nat \<Rightarrow> ring" where
  "Ring_new n = \<lparr>n_ring = n, buf_ring = replicate n 0, sum_ring = 0, count_ring = 0, i_ring = 0\<rparr>"

definition Ring_push :: "real \<Rightarrow> ring \<Rightarrow> ring" where
  "Ring_push v r =
     (if count_ring r < n_ring r
      then r\<lparr>buf_ring := (buf_ring r)[i_ring r := v],
             sum_ring := sum_ring r + v,
             i_ring := (i_ring r + 1) mod n_ring r,
             count_ring := count_ring r + 1\<rparr>
      else r\<lparr>sum_ring := sum_ring r - buf_ring r ! i_ring r + v,
             buf_ring := (buf_ring r)[i_ring r := v],
             i_ring := (i_ring r + 1) mod n_ring r\<rparr>)"

definition Ring_mean :: "ring \<Rightarrow> real" where
  "Ring_mean r = (if count_ring r \<noteq> 0 then sum_ring r / real (count_ring r) else 0)"

definition Ring_reset :: "ring \<Rightarrow> ring" where
  "Ring_reset r = r\<lparr>sum_ring := 0, count_ring := 0, i_ring := 0,
                    buf_ring := map (\<lambda>_. 0) (buf_ring r)\<rparr>"

text \<open>
  \<^verbatim>\<open>const eyeClosedRaw = (!Number.isNaN(unifiedEyeProb) && unifiedEyeProb < EYE_CLOSE_T) ? 1 : 0;\<close>
\<close>

definition eyeClosedRaw :: "jsnum \<Rightarrow> bool" where
  "eyeClosedRaw p = (\<not> isNaN p \<and> js_lt p (Fin EYE_CLOSE_T))"

definition num_of_bool :: "bool \<Rightarrow> real" where
  "num_of_bool b = (if b then 1 else 0)"

text \<open>The ring after feeding it a list of samples, oldest first.\<close>

definition Ring_pushes :: "ring \<Rightarrow> real list \<Rightarrow> ring" where
  "Ring_pushes r vs = foldl (\<lambda>q v. Ring_push v q) r vs"


section \<open>Feature schema\<close>

text \<open>
  The object that \<^verbatim>\<open>buildRawFeatures\<close> returns, one field per key. \<^verbatim>\<open>FEAT_ORDER\<close>
  lists the keys; reading \<^verbatim>\<open>raw[FEAT_ORDER[i]]\<close> is applying the \<open>i\<close>-th selector.
\<close>

record raw_features =
  yaw_adj :: jsnum
  pitch_adj :: jsnum
  roll_adj :: jsnum
  dyaw_adj_per_s :: jsnum
  dpitch_adj_per_s :: jsnum
  droll_adj_per_s :: jsnum
  eye_open_unified :: jsnum
  ema_eye_open_1s :: jsnum
  ema_eye_open_5s :: jsnum
  eye_open_trend_3s :: jsnum
  eye_close_dur_s :: jsnum
  eye_run_len_frames :: jsnum
  perclos_30s :: jsnum
  blink_rate_30s :: jsnum
  max_close_run_10s :: jsnum
  time_since_last_blink_s :: jsnum
  yawn_prob_ema_1s :: jsnum
  mouth_open_run_s :: jsnum
  mouth_open_rate_30s :: jsnum
  time_since_last_yawn_s :: jsnum

definition FEAT_ORDER :: "(raw_features \<Rightarrow> jsnum) list" where
  "FEAT_ORDER =
     [yaw_adj, pitch_adj, roll_adj,
      dyaw_adj_per_s, dpitch_adj_per_s, droll_adj_per_s,
      eye_open_unified, ema_eye_open_1s, ema_eye_open_5s, eye_open_trend_3s,
      eye_close_dur_s, eye_run_len_frames, perclos_30s, blink_rate_30s,
      max_close_run_10s, time_since_last_blink_s,
      yawn_prob_ema_1s, mouth_open_run_s, mouth_open_rate_30s, time_since_last_yawn_s]"

text \<open>\<^verbatim>\<open>const F = FEAT_ORDER.length;\<close> (named \<open>FEAT_LEN\<close> here).\<close>

definition FEAT_LEN :: nat where
  "FEAT_LEN = length FEAT_ORDER"

text \<open>
  The argument object of \<^verbatim>\<open>buildRawFeatures\<close>; its fields carry the suffix \<open>_o\<close>.
  \<^verbatim>\<open>eye_run_len_frames\<close> is the frame counter \<^verbatim>\<open>eyeRunLenFrames\<close>, never nullish.
\<close>

record feat_obj =
  yawDeg_o :: jsnum
  pitchDeg_o :: jsnum
  rollDeg_o :: jsnum
  dYaw_o :: jsnum
  dPitch_o :: jsnum
  dRoll_o :: jsnum
  eye_open_unified_o :: jsnum
  ema_eye_open_1s_o :: jsnum
  ema_eye_open_5s_o :: jsnum
  eye_open_trend_3s_o :: jsnum
  eye_close_dur_s_o :: jsnum
  eye_run_len_frames_o :: nat
  perclos_30s_o :: jsnum
  blink_rate_30s_o :: jsnum
  max_close_run_10s_o :: jsnum
  time_since_last_blink_s_o :: jsnum
  yawn_prob_ema_1s_o :: jsnum
  mouth_open_run_s_o :: jsnum
  mouth_open_rate_30s_o :: jsnum
  time_since_last_yawn_s_o :: jsnum

definition buildRawFeatures :: "feat_obj \<Rightarrow> raw_features" where
  "buildRawFeatures obj =
     \<lparr>yaw_adj = yawDeg_o obj,
      pitch_adj = pitchDeg_o obj,
      roll_adj = rollDeg_o obj,
      dyaw_adj_per_s = dYaw_o obj,
      dpitch_adj_per_s = dPitch_o obj,
      droll_adj_per_s = dRoll_o obj,
      eye_open_unified = finiteOr (eye_open_unified_o obj) 0.5,
      ema_eye_open_1s = finiteOr (ema_eye_open_1s_o obj) 0.5,
      ema_eye_open_5s = finiteOr (ema_eye_open_5s_o obj) 0.5,
      eye_open_trend_3s = finiteOr (eye_open_trend_3s_o obj) 0.0,
      eye_close_dur_s = finiteOr (eye_close_dur_s_o obj) 0.0,
      eye_run_len_frames = Fin (real (eye_run_len_frames_o obj)),
      perclos_30s = finiteOr (perclos_30s_o obj) 0.0,
      blink_rate_30s = finiteOr (blink_rate_30s_o obj) 0.0,
      max_close_run_10s = finiteOr (max_close_run_10s_o obj) 0.0,
      time_since_last_blink_s = finiteOr (time_since_last_blink_s_o obj) 0.0,
      yawn_prob_ema_1s = finiteOr (yawn_prob_ema_1s_o obj) 0.0,
      mouth_open_run_s = finiteOr (mouth_open_run_s_o obj) 0.0,
      mouth_open_rate_30s = finiteOr (mouth_open_rate_30s_o obj) 0.0,
      time_since_last_yawn_s = finiteOr (time_since_last_yawn_s_o obj) 0.0\<rparr>"

text \<open>
  \<^verbatim>\<open>rawToVector\<close>: the values in schema order (no key of the object is ever nullish).
\<close>

definition rawToVector :: "raw_features \<Rightarrow> jsnum list" where
  "rawToVector raw = map (\<lambda>key. key raw) FEAT_ORDER"

section \<open>Session state\<close>

datatype axis = Yaw | Pitch | Roll

datatype dom_eye = DomRight | DomLeft | DomBoth

text \<open>The texts written to \<^verbatim>\<open>#tcnText\<close> and \<^verbatim>\<open>#normSummary\<close>.\<close>

datatype tcn_status =
    TcnDash
  | TcnNotLoaded
  | Warming nat nat
  | AwaitingNorm
  | Verdict bool jsnum

datatype norm_status =
    NormUnset
  | NormDisabled
  | NormWillCollect
  | NormCollecting
  | NormReady nat
  | NormUnstable

record eye_run =
  tEnd :: real
  lenFrames :: nat
  durS :: real

record mouth_run =
  tEnd_m :: real
  durS_m :: real

type_synonym vec3 = "real \<times> real \<times> real"

text \<open>
  The module's \<^verbatim>\<open>let\<close> and \<^verbatim>\<open>const\<close> bindings that the processing loop reads and
  writes, under their own names. \<open>baselineR0\<close> is the variable \<^verbatim>\<open>R0\<close> closed over by
  \<^verbatim>\<open>makeBaselineCalibrator\<close>; \<open>baselineStats_mu\<close> and \<open>baselineStats_sigma\<close> are the two
  properties of \<^verbatim>\<open>baselineStats\<close> (\<open>None\<close> is \<^verbatim>\<open>null\<close>). Of the page, the record keeps
  the texts of \<^verbatim>\<open>#tcnText\<close>, \<^verbatim>\<open>#normSummary\<close> and \<^verbatim>\<open>#blinkState\<close>.
\<close>

record state =
  runningFlag :: bool
  baselineCaptured :: bool
  dominantEye :: dom_eye
  angleBufs :: "axis \<Rightarrow> jsnum list"
  deltaEMA :: "axis \<Rightarrow> jsnum"
  baselineR0 :: "real list list option"
  normalizationEnabled :: bool
  normMode :: bool
  normT0 :: real
  baseCnt :: nat
  baseSum :: "jsnum list"
  baseSqSum :: "jsnum list"
  baselineStats_mu :: "jsnum list option"
  baselineStats_sigma :: "jsnum list option"
  featBuf :: "jsnum list list"
  tcnIsDrowsy :: bool
  eyeClosedDebounced :: bool
  eyeDebOn :: nat
  eyeDebOff :: nat
  eyeRunLenFrames :: nat
  prolongedEyeActive :: bool
  lastProlongStartFrame :: int
  blinkPulse :: nat
  eyeRuns :: "eye_run list"
  lastBlinkEndTime :: real
  hasSeenBlink :: nat
  emaEye1 :: jsnum
  emaEye5 :: jsnum
  rbEyeClosed :: ring
  yawnEma1 :: jsnum
  mouthOpen :: bool
  mouthRunFrames :: nat
  yawnProlonged :: bool
  mouthRuns :: "mouth_run list"
  yawnPulse :: nat
  lastYawnEndTime :: real
  nodActive :: bool
  stableFrames :: nat
  tcnText :: tcn_status
  normSummary :: norm_status
  blinkState :: bool

text \<open>
  What one call of the \<^verbatim>\<open>faceMesh.onResults\<close> callback receives from outside: the
  clock readings, whether a face was found, the axes and angles of the head-pose
  estimator (the trigonometry of \<^verbatim>\<open>eulerFromAxes\<close> is not modelled: the angles after
  baseline adjustment are inputs), and the two probabilities of the eye and the yawn
  networks (\<^verbatim>\<open>NaN\<close> when a crop was not available).
\<close>

record frame =
  nowSec :: real
  resetNowSec :: real
  collectNowSec :: real
  face :: bool
  preX :: vec3
  preY :: vec3
  preZ :: vec3
  rawYawDeg :: jsnum
  yawDeg :: jsnum
  pitchDeg :: jsnum
  rollDeg :: jsnum
  unifiedEyeProb :: jsnum
  yawnProb :: jsnum


section \<open>Baseline pose calibrator\<close>

definition vcross :: "vec3 \<Rightarrow> vec3 \<Rightarrow> vec3" where
  "vcross a b =
     (case a of (ax, ay, az) \<Rightarrow> case b of (bx, by, bz) \<Rightarrow>
        (ay * bz - az * by, az * bx - ax * bz, ax * by - ay * bx))"

text \<open>\<^verbatim>\<open>function vnorm(v){return Math.hypot(v.x,v.y,v.z??0)||1e-8;}\<close>\<close>

definition vnorm :: "vec3 \<Rightarrow> real" where
  "vnorm v =
     (case v of (x, y, z) \<Rightarrow>
        let h = sqrt (x * x + y * y + z * z) in if h = 0 then 0.00000001 else h)"

definition vunit :: "vec3 \<Rightarrow> vec3" where
  "vunit v = (case v of (x, y, z) \<Rightarrow> let n = vnorm v in (x / n, y / n, z / n))"

definition setManualAxes :: "vec3 \<Rightarrow> vec3 \<Rightarrow> vec3 \<Rightarrow> real list list" where
  "setManualAxes X Y Z =
     (let Xn = vunit X; Zn = vunit (vcross Xn Y); Yn = vunit (vcross Zn Xn)
      in case Xn of (xx, xy, xz) \<Rightarrow> case Yn of (yx, yy, yz) \<Rightarrow> case Zn of (zx, zy, zz) \<Rightarrow>
           [[xx, yx, zx], [xy, yy, zy], [xz, yz, zz]])"

section \<open>Per-session normalisation statistics\<close>

text \<open>
  \<^verbatim>\<open>resetNorm\<close>; its argument is the reading of \<^verbatim>\<open>performance.now()/1000\<close>.
  \<^verbatim>\<open>baselineStats\<close> is not touched.
\<close>

definition resetNorm :: "real \<Rightarrow> state \<Rightarrow> state" where
  "resetNorm t s =
     (let s1 = s\<lparr>normMode := normalizationEnabled s\<rparr>
      in if \<not> normMode s1 then s1\<lparr>normSummary := NormDisabled\<rparr>
         else s1\<lparr>normT0 := t, baseCnt := 0,
                 baseSum := map (\<lambda>_. Fin 0) (baseSum s1),
                 baseSqSum := map (\<lambda>_. Fin 0) (baseSqSum s1),
                 normSummary := NormCollecting\<rparr>)"

text \<open>
  \<^verbatim>\<open>addNormSample\<close>: the loop runs over the indices below \<^verbatim>\<open>FEAT_NAMES.length\<close>; the
  accumulators and the vector all have that length.
\<close>

definition addNormSample :: "jsnum list \<Rightarrow> state \<Rightarrow> state" where
  "addNormSample vec s =
     s\<lparr>baseSum := map (\<lambda>i. js_add (baseSum s ! i) (vec ! i)) [0..<FEAT_LEN],
       baseSqSum := map (\<lambda>i. js_add (baseSqSum s ! i) (js_mul (vec ! i) (vec ! i))) [0..<FEAT_LEN],
       baseCnt := baseCnt s + 1\<rparr>"

text \<open>
  \<^verbatim>\<open>finalizeNorm\<close> returns its boolean together with the state. It reads the module
  variable \<^verbatim>\<open>normMode\<close> first.
\<close>

definition finalizeNorm :: "state \<Rightarrow> bool \<times> state" where
  "finalizeNorm s =
     (if \<not> normMode s then (True, s)
      else if baseCnt s < MIN_ACCEPTED then (False, s)
      else
        let cnt = Fin (real (baseCnt s));
            mu = map (\<lambda>i. js_div (baseSum s ! i) cnt) [0..<FEAT_LEN];
            sigma = map (\<lambda>i.
                      let m = js_div (baseSum s ! i) cnt;
                          v = js_max (Fin 0.000001) (js_sub (js_div (baseSqSum s ! i) cnt) (js_mul m m))
                      in js_sqrt v) [0..<FEAT_LEN]
        in (True, s\<lparr>baselineStats_mu := Some mu, baselineStats_sigma := Some sigma,
                     normSummary := NormReady (baseCnt s)\<rparr>))"

section \<open>Angle deltas smoothing\<close>

definition DT_FIXED :: real where "DT_FIXED = 1 / 15"
definition MAXN :: nat where "MAXN = 5"

text \<open>
  \<^verbatim>\<open>getSmoothDelta(name, newVal)\<close> works on \<^verbatim>\<open>angleBufs[name]\<close> and \<^verbatim>\<open>deltaEMA[name]\<close>
  alone: \<open>smoothDelta\<close> is its body on these two values, \<open>getSmoothDelta\<close> reads them
  from the state and writes them back.
\<close>

definition smoothDelta :: "jsnum list \<Rightarrow> jsnum \<Rightarrow> jsnum \<Rightarrow> jsnum list \<times> jsnum" where
  "smoothDelta buf0 ema0 newVal =
     (let pushed = buf0 @ [newVal];
          buf = (if length pushed > MAXN then tl pushed else pushed);
          d = (if length buf \<ge> 3
               then js_div (js_sub (buf ! (length buf - 1)) (buf ! (length buf - 3)))
                           (Fin (2 * DT_FIXED))
               else if length buf \<ge> 2
               then js_div (js_sub (buf ! (length buf - 1)) (buf ! (length buf - 2)))
                           (Fin DT_FIXED)
               else Fin 0);
          k = 0.3;
          e = js_add (js_mul ema0 (Fin (1 - k))) (js_mul d (Fin k))
      in (buf, e))"

definition getSmoothDelta :: "axis \<Rightarrow> jsnum \<Rightarrow> state \<Rightarrow> jsnum \<times> state" where
  "getSmoothDelta name newVal s =
     (let r = smoothDelta (angleBufs s name) (deltaEMA s name) newVal
      in (snd r, s\<lparr>angleBufs := (angleBufs s)(name := fst r),
                    deltaEMA := (deltaEMA s)(name := snd r)\<rparr>))"

section \<open>Feature buffer for the temporal classifier\<close>

text \<open>
  \<^verbatim>\<open>baselineStats.mu?.[i] ?? 0\<close> and \<^verbatim>\<open>baselineStats.sigma?.[i] ?? 1\<close>: the default
  applies when the array is \<^verbatim>\<open>null\<close> or the index is outside it.
\<close>

definition stat_or :: "jsnum list option \<Rightarrow> nat \<Rightarrow> jsnum \<Rightarrow> jsnum" where
  "stat_or arr i d =
     (case arr of None \<Rightarrow> d | Some a \<Rightarrow> if i < length a then a ! i else d)"

definition normRow :: "state \<Rightarrow> raw_features \<Rightarrow> jsnum list" where
  "normRow s raw =
     map (\<lambda>i. let v = (FEAT_ORDER ! i) raw;
                  mu = stat_or (baselineStats_mu s) i (Fin 0);
                  sg = js_max (Fin 0.001) (stat_or (baselineStats_sigma s) i (Fin 1))
              in js_div (js_sub v mu) sg) [0..<FEAT_LEN]"

definition pushFrameFeatures :: "raw_features \<Rightarrow> state \<Rightarrow> state" where
  "pushFrameFeatures raw s =
     (let pushed = featBuf s @ [normRow s raw]
      in s\<lparr>featBuf := (if length pushed > TCN_WINDOW then tl pushed else pushed)\<rparr>)"

text \<open>
  \<^verbatim>\<open>tcnPredictIfReady\<close>. The loaded model is a parameter (\<open>None\<close> before it is
  loaded), a function from the window to the probability \<^verbatim>\<open>y.dataSync()[0]\<close>. The
  second component of the result is the tensor handed to \<^verbatim>\<open>tcnModel.predict\<close> on this
  call, \<open>None\<close> when the model is not called.
\<close>

definition tcnPredictIfReady ::
  "(jsnum list list \<Rightarrow> jsnum) option \<Rightarrow> state \<Rightarrow> state \<times> jsnum list list option" where
  "tcnPredictIfReady tcnModel s =
     (case tcnModel of
        None \<Rightarrow> (s\<lparr>tcnText := TcnNotLoaded\<rparr>, None)
      | Some predict \<Rightarrow>
          if length (featBuf s) < TCN_WINDOW
          then (s\<lparr>tcnText :=
                    (if baselineStats_mu s \<noteq> None then Warming (length (featBuf s)) TCN_WINDOW
                     else if normalizationEnabled s then AwaitingNorm
                     else Warming (length (featBuf s)) TCN_WINDOW)\<rparr>, None)
          else
            let x = take TCN_WINDOW (featBuf s);
                prob = predict x;
                drowsy = (if \<not> tcnIsDrowsy s \<and> js_ge prob (Fin ON_THRESH) then True
                          else if tcnIsDrowsy s \<and> js_le prob (Fin OFF_THRESH) then False
                          else tcnIsDrowsy s)
            in (s\<lparr>tcnIsDrowsy := drowsy, tcnText := Verdict drowsy prob\<rparr>, Some x))"


section \<open>Processing loop: eye pipeline\<close>

text \<open>
  The callback of \<^verbatim>\<open>faceMesh.onResults\<close> is cut into its commented parts, each a
  function on the state, in the order of the source. The first is the pair of eye
  EMAs; \<^verbatim>\<open>isFinite\<close> of a number is \<^verbatim>\<open>Number.isFinite\<close>.
\<close>

definition eyeEmaUpdate :: "jsnum \<Rightarrow> state \<Rightarrow> state" where
  "eyeEmaUpdate p s =
     (if \<not> isFinite (emaEye1 s)
      then let v = (if isFinite p then p else Fin 1.0) in s\<lparr>emaEye1 := v, emaEye5 := v\<rparr>
      else
        let v = (if isFinite p then p else emaEye1 s)
        in s\<lparr>emaEye1 := js_add (emaEye1 s)
                            (js_mul (Fin (1 - exp (- DT / 1.0))) (js_sub v (emaEye1 s))),
              emaEye5 := js_add (emaEye5 s)
                            (js_mul (Fin (1 - exp (- DT / 5.0))) (js_sub v (emaEye5 s)))\<rparr>)"

text \<open>The debounce of the raw closed signal, with the bookkeeping of a completed run.\<close>

definition eyeDebounce :: "real \<Rightarrow> bool \<Rightarrow> state \<Rightarrow> state" where
  "eyeDebounce now rawClosed s =
     (if rawClosed
      then
        let s1 = s\<lparr>eyeDebOn := eyeDebOn s + 1, eyeDebOff := 0\<rparr>
        in if \<not> eyeClosedDebounced s1 \<and> eyeDebOn s1 \<ge> EYE_DEBOUNCE_ON_F
           then s1\<lparr>eyeClosedDebounced := True, eyeRunLenFrames := 0\<rparr>
           else s1
      else
        let s1 = s\<lparr>eyeDebOff := eyeDebOff s + 1, eyeDebOn := 0\<rparr>
        in if eyeClosedDebounced s1 \<and> eyeDebOff s1 \<ge> EYE_DEBOUNCE_OFF_F
           then
             let lenF = eyeRunLenFrames s1;
                 dur = real lenF * DT;
                 runs = eyeRuns s1 @ [\<lparr>tEnd = now, lenFrames = lenF, durS = dur\<rparr>];
                 cut30 = now - 30.0;
                 s2 = s1\<lparr>eyeRuns := dropWhile (\<lambda>r. tEnd r < cut30) runs\<rparr>;
                 s3 = (if lenF \<ge> BLINK_MIN_F \<and> lenF \<le> BLINK_MAX_F
                       then s2\<lparr>lastBlinkEndTime := now, hasSeenBlink := 1, blinkPulse := 1\<rparr>
                       else s2)
             in s3\<lparr>eyeClosedDebounced := False, eyeRunLenFrames := 0\<rparr>
           else s1)"

text \<open>\<^verbatim>\<open>if(eyeClosedDebounced) eyeRunLenFrames++;\<close>\<close>

definition eyeRunCount :: "state \<Rightarrow> state" where
  "eyeRunCount s =
     (if eyeClosedDebounced s then s\<lparr>eyeRunLenFrames := eyeRunLenFrames s + 1\<rparr> else s)"

text \<open>Prolonged closure; the lockout compares \<^verbatim>\<open>featBuf.length\<close> with the stored start.\<close>

definition eyeProlonged :: "state \<Rightarrow> state" where
  "eyeProlonged s =
     (if eyeClosedDebounced s
      then (if \<not> prolongedEyeActive s \<and> eyeRunLenFrames s \<ge> FRM_2P5S
               \<and> int (length (featBuf s)) - lastProlongStartFrame s \<ge> BLINK_LOCK_FRM
            then s\<lparr>prolongedEyeActive := True,
                   lastProlongStartFrame := int (length (featBuf s))\<rparr>
            else s)
      else s\<lparr>prolongedEyeActive := False\<rparr>)"

text \<open>
  \<^verbatim>\<open>blink_state\<close> and the decrement of the pulse; the value is what \<^verbatim>\<open>#blinkState\<close>
  shows.
\<close>

definition blinkPulseStep :: "state \<Rightarrow> state" where
  "blinkPulseStep s =
     (let blink_state = (blinkPulse s > 0 \<and> \<not> eyeClosedDebounced s)
      in s\<lparr>blinkPulse := (if blinkPulse s > 0 then blinkPulse s - 1 else blinkPulse s),
            blinkState := blink_state\<rparr>)"

definition eyePipeline :: "frame \<Rightarrow> state \<Rightarrow> state" where
  "eyePipeline f s =
     (let rawClosed = eyeClosedRaw (unifiedEyeProb f);
          s1 = s\<lparr>rbEyeClosed := Ring_push (num_of_bool rawClosed) (rbEyeClosed s)\<rparr>;
          s2 = eyeEmaUpdate (unifiedEyeProb f) s1;
          s3 = eyeDebounce (nowSec f) rawClosed s2;
          s4 = eyeRunCount s3;
          s5 = eyeProlonged s4
      in blinkPulseStep s5)"

text \<open>The rolling statistics over \<^verbatim>\<open>eyeRuns\<close>, read at time \<open>now\<close>.\<close>

definition blink_rate_30s_of :: "real \<Rightarrow> state \<Rightarrow> real" where
  "blink_rate_30s_of now s =
     real (length (filter (\<lambda>r. tEnd r \<ge> now - 30.0 \<and> lenFrames r \<ge> BLINK_MIN_F
                               \<and> lenFrames r \<le> BLINK_MAX_F) (eyeRuns s))) / 30.0"

definition max_close_run_10s_of :: "real \<Rightarrow> state \<Rightarrow> real" where
  "max_close_run_10s_of now s =
     foldl (\<lambda>m r. if tEnd r \<ge> now - 10.0 \<and> durS r > m then durS r else m) 0 (eyeRuns s)"

definition time_since_last_blink_s_of :: "real \<Rightarrow> state \<Rightarrow> real" where
  "time_since_last_blink_s_of now s = min (max 0 (now - lastBlinkEndTime s)) TS_MAX"

section \<open>Processing loop: mouth and yawn\<close>

definition yawnEmaUpdate :: "jsnum \<Rightarrow> state \<Rightarrow> state" where
  "yawnEmaUpdate p s =
     (if \<not> isFinite (yawnEma1 s)
      then s\<lparr>yawnEma1 := (if isFinite p then p else Fin 0)\<rparr>
      else
        let vy = (if isFinite p then p else yawnEma1 s)
        in s\<lparr>yawnEma1 := js_add (yawnEma1 s)
                             (js_mul (Fin (1 - exp (- DT / 1.0))) (js_sub vy (yawnEma1 s)))\<rparr>)"

definition mouthHysteresis :: "real \<Rightarrow> state \<Rightarrow> state" where
  "mouthHysteresis now s =
     (if mouthOpen s
      then
        (if js_le (yawnEma1 s) (Fin MOUTH_OFF_T)
         then
           let dur = real (mouthRunFrames s) * DT;
               runs = mouthRuns s @ [\<lparr>tEnd_m = now, durS_m = dur\<rparr>];
               cutM30 = now - 30.0;
               s1 = s\<lparr>mouthRuns := dropWhile (\<lambda>r. tEnd_m r < cutM30) runs\<rparr>;
               s2 = (if dur \<ge> MOUTH_PROLONG_S
                     then s1\<lparr>yawnPulse := 1, lastYawnEndTime := now\<rparr> else s1)
           in s2\<lparr>mouthOpen := False, mouthRunFrames := 0, yawnProlonged := False\<rparr>
         else
           let s1 = s\<lparr>mouthRunFrames := mouthRunFrames s + 1\<rparr>
           in if \<not> yawnProlonged s1 \<and> real (mouthRunFrames s1) * DT \<ge> MOUTH_PROLONG_S
              then s1\<lparr>yawnProlonged := True\<rparr> else s1)
      else
        (if js_ge (yawnEma1 s) (Fin MOUTH_ON_T)
         then s\<lparr>mouthOpen := True, mouthRunFrames := 1, yawnProlonged := False\<rparr>
         else s))"

text \<open>\<^verbatim>\<open>if(yawnPulse>0) yawnPulse--;\<close>\<close>

definition yawnPulseStep :: "state \<Rightarrow> state" where
  "yawnPulseStep s = (if yawnPulse s > 0 then s\<lparr>yawnPulse := yawnPulse s - 1\<rparr> else s)"

definition mouthPipeline :: "frame \<Rightarrow> state \<Rightarrow> state" where
  "mouthPipeline f s =
     yawnPulseStep (mouthHysteresis (nowSec f) (yawnEmaUpdate (yawnProb f) s))"

definition mouth_open_run_s_of :: "state \<Rightarrow> real" where
  "mouth_open_run_s_of s = (if mouthOpen s then real (mouthRunFrames s) * DT else 0)"

definition mouth_open_rate_30s_of :: "real \<Rightarrow> state \<Rightarrow> real" where
  "mouth_open_rate_30s_of now s =
     real (length (filter (\<lambda>r. tEnd_m r \<ge> now - 30.0 \<and> durS_m r \<ge> MOUTH_SHORT_MIN_S
                               \<and> durS_m r \<le> MOUTH_SHORT_MAX_S) (mouthRuns s))) / 30.0"

definition time_since_last_yawn_s_of :: "real \<Rightarrow> state \<Rightarrow> real" where
  "time_since_last_yawn_s_of now s = min (max 0 (now - lastYawnEndTime s)) TS_MAX"

section \<open>Processing loop: nod rule, features, statistics\<close>

definition nodRule :: "frame \<Rightarrow> state \<Rightarrow> state" where
  "nodRule f s =
     (let eyeClosed = eyeClosedRaw (unifiedEyeProb f);
          s1 = (if prolongedEyeActive s \<and> js_le (pitchDeg f) (Fin (- 4))
                   \<and> js_le (js_abs (rollDeg f)) (Fin 20) \<and> js_le (js_abs (yawDeg f)) (Fin 10)
                then s\<lparr>nodActive := True\<rparr> else s)
      in if \<not> eyeClosed \<or> js_gt (js_abs (yawDeg f)) (Fin 10) \<or> js_ge (pitchDeg f) (Fin (- 2))
         then s1\<lparr>nodActive := False, stableFrames := 0\<rparr> else s1)"

text \<open>
  The object literal passed to \<^verbatim>\<open>buildRawFeatures\<close>. Its entries were computed
  earlier in the callback from variables that no later statement of the callback
  assigns, so they are read here from the state.
\<close>

definition featureObj :: "frame \<Rightarrow> jsnum \<Rightarrow> jsnum \<Rightarrow> jsnum \<Rightarrow> state \<Rightarrow> feat_obj" where
  "featureObj f dYaw dPitch dRoll s =
     \<lparr>yawDeg_o = yawDeg f,
      pitchDeg_o = pitchDeg f,
      rollDeg_o = rollDeg f,
      dYaw_o = dYaw,
      dPitch_o = dPitch,
      dRoll_o = dRoll,
      eye_open_unified_o = unifiedEyeProb f,
      ema_eye_open_1s_o = emaEye1 s,
      ema_eye_open_5s_o = emaEye5 s,
      eye_open_trend_3s_o = js_sub (emaEye1 s) (emaEye5 s),
      eye_close_dur_s_o = Fin (if eyeClosedDebounced s then real (eyeRunLenFrames s) * DT else 0),
      eye_run_len_frames_o = eyeRunLenFrames s,
      perclos_30s_o = Fin (Ring_mean (rbEyeClosed s)),
      blink_rate_30s_o = Fin (blink_rate_30s_of (nowSec f) s),
      max_close_run_10s_o = Fin (max_close_run_10s_of (nowSec f) s),
      time_since_last_blink_s_o = Fin (time_since_last_blink_s_of (nowSec f) s),
      yawn_prob_ema_1s_o = yawnEma1 s,
      mouth_open_run_s_o = Fin (mouth_open_run_s_of s),
      mouth_open_rate_30s_o = Fin (mouth_open_rate_30s_of (nowSec f) s),
      time_since_last_yawn_s_o = Fin (time_since_last_yawn_s_of (nowSec f) s)\<rparr>"

text \<open>
  The collection of the statistics inside the callback: \<^verbatim>\<open>normMode\<close> is set to
  \<^verbatim>\<open>false\<close> and then \<^verbatim>\<open>finalizeNorm()\<close> is called.
\<close>

definition normCollect :: "real \<Rightarrow> raw_features \<Rightarrow> state \<Rightarrow> state" where
  "normCollect now raw s =
     (if normMode s
      then
        let elapsed = now - normT0 s;
            s1 = addNormSample (rawToVector raw) s
        in if elapsed \<ge> NORM_SECONDS
           then
             let s2 = s1\<lparr>normMode := False\<rparr>;
                 r = finalizeNorm s2
             in if \<not> fst r then (snd r)\<lparr>normSummary := NormUnstable\<rparr> else snd r
           else s1
      else s)"

text \<open>The first frame with a face of a session takes the baseline and starts the statistics.\<close>

definition baselineSnapshot :: "frame \<Rightarrow> state \<Rightarrow> state" where
  "baselineSnapshot f s =
     (if \<not> baselineCaptured s
      then resetNorm (resetNowSec f)
             (s\<lparr>dominantEye := (if js_gt (rawYawDeg f) (Fin 10) then DomRight
                                  else if js_lt (rawYawDeg f) (Fin (- 10)) then DomLeft
                                  else DomBoth),
                baselineR0 := Some (setManualAxes (preX f) (preY f) (preZ f)),
                baselineCaptured := True\<rparr>)
      else s)"

section \<open>Processing loop: the callback\<close>

definition onResults ::
  "(jsnum list list \<Rightarrow> jsnum) option \<Rightarrow> frame \<Rightarrow> state \<Rightarrow> state \<times> jsnum list list option" where
  "onResults tcnModel f s =
     (if \<not> runningFlag s then (s, None)
      else if \<not> face f then (s, None)
      else
        let s1 = baselineSnapshot f s;
            y = getSmoothDelta Yaw (yawDeg f) s1;
            p = getSmoothDelta Pitch (pitchDeg f) (snd y);
            r = getSmoothDelta Roll (rollDeg f) (snd p);
            s5 = eyePipeline f (snd r);
            s6 = mouthPipeline f s5;
            s7 = nodRule f s6;
            rawFeat = buildRawFeatures (featureObj f (fst y) (fst p) (fst r) s7);
            s8 = normCollect (collectNowSec f) rawFeat s7;
            s9 = pushFrameFeatures rawFeat s8
        in tcnPredictIfReady tcnModel s9)"

text \<open>One tick: the state after the callback.\<close>

definition tick :: "(jsnum list list \<Rightarrow> jsnum) option \<Rightarrow> state \<Rightarrow> frame \<Rightarrow> state" where
  "tick tcnModel s f = fst (onResults tcnModel f s)"

definition ticks :: "(jsnum list list \<Rightarrow> jsnum) option \<Rightarrow> state \<Rightarrow> frame list \<Rightarrow> state" where
  "ticks tcnModel s fs = foldl (tick tcnModel) s fs"

section \<open>Session control\<close>

text \<open>
  \<^verbatim>\<open>startProcessing\<close>; the argument says whether a camera stream is there
  (\<^verbatim>\<open>streamFlag || videoEl.srcObject\<close>).
\<close>

definition startProcessing :: "bool \<Rightarrow> state \<Rightarrow> state" where
  "startProcessing camera s =
     (if \<not> camera then s
      else s\<lparr>runningFlag := True, baselineCaptured := False,
             eyeClosedDebounced := False, eyeDebOn := 0, eyeDebOff := 0, eyeRunLenFrames := 0,
             prolongedEyeActive := False, lastProlongStartFrame := - 1000000000, blinkPulse := 0,
             eyeRuns := [], lastBlinkEndTime := 0, hasSeenBlink := 0,
             emaEye1 := NaN, emaEye5 := NaN, rbEyeClosed := Ring_reset (rbEyeClosed s),
             yawnEma1 := NaN, mouthOpen := False, mouthRunFrames := 0, yawnProlonged := False,
             mouthRuns := [], yawnPulse := 0, lastYawnEndTime := 0,
             nodActive := False, stableFrames := 0, dominantEye := DomBoth,
             baselineR0 := None,
             featBuf := [], tcnIsDrowsy := False, tcnText := TcnDash\<rparr>)"

definition stopProcessing :: "state \<Rightarrow> state" where
  "stopProcessing s = s\<lparr>runningFlag := False\<rparr>"

definition setNormalizationEnabled :: "bool \<Rightarrow> state \<Rightarrow> state" where
  "setNormalizationEnabled enabled s =
     s\<lparr>normalizationEnabled := enabled,
       normSummary := (if enabled then NormWillCollect else NormDisabled)\<rparr>"

text \<open>The values the module's variables are declared with.\<close>

definition bootState :: state where
  "bootState =
     \<lparr>runningFlag = False, baselineCaptured = False, dominantEye = DomBoth,
      angleBufs = (\<lambda>_. []), deltaEMA = (\<lambda>_. Fin 0), baselineR0 = None,
      normalizationEnabled = False, normMode = False, normT0 = 0, baseCnt = 0,
      baseSum = replicate FEAT_LEN (Fin 0), baseSqSum = replicate FEAT_LEN (Fin 0),
      baselineStats_mu = None, baselineStats_sigma = None,
      featBuf = [], tcnIsDrowsy = False,
      eyeClosedDebounced = False, eyeDebOn = 0, eyeDebOff = 0, eyeRunLenFrames = 0,
      prolongedEyeActive = False, lastProlongStartFrame = - 1000000000, blinkPulse = 0,
      eyeRuns = [], lastBlinkEndTime = 0, hasSeenBlink = 0,
      emaEye1 = NaN, emaEye5 = NaN, rbEyeClosed = Ring_new PER_30S,
      yawnEma1 = NaN, mouthOpen = False, mouthRunFrames = 0, yawnProlonged = False,
      mouthRuns = [], yawnPulse = 0, lastYawnEndTime = 0,
      nodActive = False, stableFrames = 0,
      tcnText = TcnDash, normSummary = NormUnset, blinkState = False\<rparr>"


section \<open>Projections and traces used in the proofs\<close>

text \<open>
  The variables of the eye debounce and of the prolonged-closure lockout, with the
  length of \<^verbatim>\<open>featBuf\<close> that the lockout reads: closed flag, on and off counters, run
  length, prolonged flag, \<^verbatim>\<open>lastProlongStartFrame\<close>, \<^verbatim>\<open>featBuf.length\<close>.
\<close>

type_synonym eye_core = "bool \<times> nat \<times> nat \<times> nat \<times> bool \<times> int \<times> nat"

definition eyeCore :: "state \<Rightarrow> eye_core" where
  "eyeCore s = (eyeClosedDebounced s, eyeDebOn s, eyeDebOff s, eyeRunLenFrames s,
                prolongedEyeActive s, lastProlongStartFrame s, length (featBuf s))"

text \<open>
  What one callback does to these variables, given the raw closed signal of the frame.
  It is proved below (\<open>tick_core\<close>) to be the projection of \<open>tick\<close>; it serves to run
  long traces.
\<close>

fun eyeCoreStep :: "bool \<Rightarrow> eye_core \<Rightarrow> eye_core" where
  "eyeCoreStep c (deb, on, off, run, prol, lastStart, n) =
     (let on' = (if c then on + 1 else 0);
          off' = (if c then 0 else off + 1);
          deb' = (if c then deb \<or> 2 \<le> on' else deb \<and> off' < 2);
          run0 = (if deb' = deb then run else 0);
          run' = (if deb' then run0 + 1 else run0);
          start = (deb' \<and> \<not> prol \<and> 12 \<le> run' \<and> 30 \<le> int n - lastStart);
          prol' = (deb' \<and> (prol \<or> start));
          lastStart' = (if start then int n else lastStart);
          n' = (if n + 1 > 90 then n else n + 1)
      in (deb', on', off', run', prol', lastStart', n'))"

text \<open>
  A frame with a face at time \<open>t\<close>: head level (all angles zero), eye probability \<open>p\<close>,
  mouth shut. \<open>poseFrame\<close> sets the yaw as well.
\<close>

definition plainFrame :: "real \<Rightarrow> jsnum \<Rightarrow> frame" where
  "plainFrame t p =
     \<lparr>nowSec = t, resetNowSec = t, collectNowSec = t, face = True,
      preX = (1, 0, 0), preY = (0, 1, 0), preZ = (0, 0, 1),
      rawYawDeg = Fin 0, yawDeg = Fin 0, pitchDeg = Fin 0, rollDeg = Fin 0,
      unifiedEyeProb = p, yawnProb = Fin 0\<rparr>"

definition poseFrame :: "real \<Rightarrow> jsnum \<Rightarrow> frame" where
  "poseFrame t y = (plainFrame t (Fin 0.9))\<lparr>yawDeg := y\<rparr>"

text \<open>
  A session at 15 frames per second: eyes open for 90 frames, closed for 13, open for
  42, closed again from frame 145 on. \<open>lockoutTrace n\<close> is its first \<open>n\<close> frames.
\<close>

definition lockoutClosed :: "nat \<Rightarrow> bool" where
  "lockoutClosed i = ((90 \<le> i \<and> i < 103) \<or> 145 \<le> i)"

definition lockoutTrace :: "nat \<Rightarrow> frame list" where
  "lockoutTrace n =
     map (\<lambda>i. plainFrame (real i / 15) (if lockoutClosed i then Fin 0.1 else Fin 0.9)) [0..<n]"

text \<open>
  The invariant of the ring after the samples \<open>vs\<close> (oldest first) were pushed into a
  new ring of capacity \<open>n\<close>: the slot \<open>j mod n\<close> holds sample \<open>j\<close> for each of the last
  \<open>n\<close> samples, and the running sum is their sum.
\<close>

definition ring_inv :: "nat \<Rightarrow> real list \<Rightarrow> ring \<Rightarrow> bool" where
  "ring_inv n vs r =
     (n_ring r = n \<and> length (buf_ring r) = n \<and>
      count_ring r = min (length vs) n \<and>
      i_ring r = length vs mod n \<and>
      sum_ring r = sum_list (drop (length vs - n) vs) \<and>
      (\<forall>j. length vs - n \<le> j \<and> j < length vs \<longrightarrow> buf_ring r ! (j mod n) = vs ! j))"

text \<open>The state at the point of the callback where the eye pipeline begins.\<close>

definition beforeEye :: "frame \<Rightarrow> state \<Rightarrow> state" where
  "beforeEye f s =
     snd (getSmoothDelta Roll (rollDeg f)
       (snd (getSmoothDelta Pitch (pitchDeg f)
         (snd (getSmoothDelta Yaw (yawDeg f) (baselineSnapshot f s))))))"

text \<open>
  A frame like \<open>plainFrame\<close> (eyes open) with yawn probability \<open>y\<close>, and the open
  interval between the two mouth thresholds.
\<close>

definition yawnFrame :: "real \<Rightarrow> jsnum \<Rightarrow> frame" where
  "yawnFrame t y = (plainFrame t (Fin 0.9))\<lparr>yawnProb := y\<rparr>"

definition inDeadBand :: "jsnum \<Rightarrow> bool" where
  "inDeadBand e = (js_lt (Fin 0.45) e \<and> js_lt e (Fin 0.55))"

text \<open>
  Later points of the callback: the state after the nod rule, the raw feature object of
  the tick, the state before the row is pushed, and the state handed to
  \<^verbatim>\<open>tcnPredictIfReady\<close>. \<open>onResults_stages\<close> below shows that the callback is
  \<^verbatim>\<open>tcnPredictIfReady\<close> on \<open>beforeTcn\<close>.
\<close>

definition afterNod :: "frame \<Rightarrow> state \<Rightarrow> state" where
  "afterNod f s = nodRule f (mouthPipeline f (eyePipeline f (beforeEye f s)))"

definition tickRaw :: "frame \<Rightarrow> state \<Rightarrow> raw_features" where
  "tickRaw f s =
     (let y = getSmoothDelta Yaw (yawDeg f) (baselineSnapshot f s);
          p = getSmoothDelta Pitch (pitchDeg f) (snd y);
          r = getSmoothDelta Roll (rollDeg f) (snd p)
      in buildRawFeatures (featureObj f (fst y) (fst p) (fst r) (afterNod f s)))"

definition beforePush :: "frame \<Rightarrow> state \<Rightarrow> state" where
  "beforePush f s = normCollect (collectNowSec f) (tickRaw f s) (afterNod f s)"

definition beforeTcn :: "frame \<Rightarrow> state \<Rightarrow> state" where
  "beforeTcn f s = pushFrameFeatures (tickRaw f s) (beforePush f s)"

text \<open>A loaded classifier that always answers 0.\<close>

definition constModel :: "jsnum list list \<Rightarrow> jsnum" where
  "constModel w = Fin 0"

text \<open>
  The variables of the statistics collection (baseline captured, normalisation enabled,
  \<^verbatim>\<open>normMode\<close>, \<^verbatim>\<open>normT0\<close>, \<^verbatim>\<open>baseCnt\<close>) and what one callback does to them, given
  the two clock readings; proved below (\<open>tick_norm\<close>) to be the projection of \<open>tick\<close>.
\<close>

type_synonym norm_core = "bool \<times> bool \<times> bool \<times> real \<times> nat"

definition normCore :: "state \<Rightarrow> norm_core" where
  "normCore s = (baselineCaptured s, normalizationEnabled s, normMode s, normT0 s, baseCnt s)"

fun normCoreStep :: "real \<Rightarrow> real \<Rightarrow> norm_core \<Rightarrow> norm_core" where
  "normCoreStep tReset tCollect (captured, enabled, mode, t0, cnt) =
     (let mode1 = (if captured then mode else enabled);
          t1 = (if \<not> captured \<and> enabled then tReset else t0);
          cnt1 = (if \<not> captured \<and> enabled then 0 else cnt)
      in (True, enabled, mode1 \<and> \<not> tCollect - t1 \<ge> 10, t1, if mode1 then cnt1 + 1 else cnt1))"

section \<open>Verification\<close>

subsection \<open>Values of the derived constants\<close>

lemma PER_30S_val: "PER_30S = 450"
  by (simp add: PER_30S_def TARGET_FPS_def)

lemma FRM_2P5S_val: "FRM_2P5S = 12"
  by (simp add: FRM_2P5S_def TARGET_FPS_def)

lemma BLINK_LOCK_FRM_val: "BLINK_LOCK_FRM = 30"
  by (simp add: BLINK_LOCK_FRM_def TARGET_FPS_def)

subsection \<open>What each part of the callback leaves unchanged\<close>

lemma resetNorm_frame [simp]:
  "runningFlag (resetNorm t s) = runningFlag s"
  "baselineCaptured (resetNorm t s) = baselineCaptured s"
  "featBuf (resetNorm t s) = featBuf s"
  "eyeClosedDebounced (resetNorm t s) = eyeClosedDebounced s"
  "eyeDebOn (resetNorm t s) = eyeDebOn s"
  "eyeDebOff (resetNorm t s) = eyeDebOff s"
  "eyeRunLenFrames (resetNorm t s) = eyeRunLenFrames s"
  "prolongedEyeActive (resetNorm t s) = prolongedEyeActive s"
  "lastProlongStartFrame (resetNorm t s) = lastProlongStartFrame s"
  "blinkPulse (resetNorm t s) = blinkPulse s"
  "eyeRuns (resetNorm t s) = eyeRuns s"
  "lastBlinkEndTime (resetNorm t s) = lastBlinkEndTime s"
  "hasSeenBlink (resetNorm t s) = hasSeenBlink s"
  "blinkState (resetNorm t s) = blinkState s"
  "emaEye1 (resetNorm t s) = emaEye1 s"
  "emaEye5 (resetNorm t s) = emaEye5 s"
  "yawnEma1 (resetNorm t s) = yawnEma1 s"
  "mouthOpen (resetNorm t s) = mouthOpen s"
  "angleBufs (resetNorm t s) = angleBufs s"
  "deltaEMA (resetNorm t s) = deltaEMA s"
  "baselineStats_mu (resetNorm t s) = baselineStats_mu s"
  "baselineStats_sigma (resetNorm t s) = baselineStats_sigma s"
  "normalizationEnabled (resetNorm t s) = normalizationEnabled s"
  by (simp_all add: resetNorm_def Let_def)

lemma baselineSnapshot_frame [simp]:
  "runningFlag (baselineSnapshot f s) = runningFlag s"
  "featBuf (baselineSnapshot f s) = featBuf s"
  "eyeClosedDebounced (baselineSnapshot f s) = eyeClosedDebounced s"
  "eyeDebOn (baselineSnapshot f s) = eyeDebOn s"
  "eyeDebOff (baselineSnapshot f s) = eyeDebOff s"
  "eyeRunLenFrames (baselineSnapshot f s) = eyeRunLenFrames s"
  "prolongedEyeActive (baselineSnapshot f s) = prolongedEyeActive s"
  "lastProlongStartFrame (baselineSnapshot f s) = lastProlongStartFrame s"
  "blinkPulse (baselineSnapshot f s) = blinkPulse s"
  "eyeRuns (baselineSnapshot f s) = eyeRuns s"
  "lastBlinkEndTime (baselineSnapshot f s) = lastBlinkEndTime s"
  "hasSeenBlink (baselineSnapshot f s) = hasSeenBlink s"
  "blinkState (baselineSnapshot f s) = blinkState s"
  "emaEye1 (baselineSnapshot f s) = emaEye1 s"
  "emaEye5 (baselineSnapshot f s) = emaEye5 s"
  "yawnEma1 (baselineSnapshot f s) = yawnEma1 s"
  "mouthOpen (baselineSnapshot f s) = mouthOpen s"
  "angleBufs (baselineSnapshot f s) = angleBufs s"
  "deltaEMA (baselineSnapshot f s) = deltaEMA s"
  "baselineStats_mu (baselineSnapshot f s) = baselineStats_mu s"
  "baselineStats_sigma (baselineSnapshot f s) = baselineStats_sigma s"
  "normalizationEnabled (baselineSnapshot f s) = normalizationEnabled s"
  by (simp_all add: baselineSnapshot_def)

lemma getSmoothDelta_frame [simp]:
  "runningFlag (snd (getSmoothDelta a v s)) = runningFlag s"
  "baselineCaptured (snd (getSmoothDelta a v s)) = baselineCaptured s"
  "featBuf (snd (getSmoothDelta a v s)) = featBuf s"
  "eyeClosedDebounced (snd (getSmoothDelta a v s)) = eyeClosedDebounced s"
  "eyeDebOn (snd (getSmoothDelta a v s)) = eyeDebOn s"
  "eyeDebOff (snd (getSmoothDelta a v s)) = eyeDebOff s"
  "eyeRunLenFrames (snd (getSmoothDelta a v s)) = eyeRunLenFrames s"
  "prolongedEyeActive (snd (getSmoothDelta a v s)) = prolongedEyeActive s"
  "lastProlongStartFrame (snd (getSmoothDelta a v s)) = lastProlongStartFrame s"
  "blinkPulse (snd (getSmoothDelta a v s)) = blinkPulse s"
  "eyeRuns (snd (getSmoothDelta a v s)) = eyeRuns s"
  "lastBlinkEndTime (snd (getSmoothDelta a v s)) = lastBlinkEndTime s"
  "hasSeenBlink (snd (getSmoothDelta a v s)) = hasSeenBlink s"
  "blinkState (snd (getSmoothDelta a v s)) = blinkState s"
  "emaEye1 (snd (getSmoothDelta a v s)) = emaEye1 s"
  "emaEye5 (snd (getSmoothDelta a v s)) = emaEye5 s"
  "yawnEma1 (snd (getSmoothDelta a v s)) = yawnEma1 s"
  "mouthOpen (snd (getSmoothDelta a v s)) = mouthOpen s"
  "baselineStats_mu (snd (getSmoothDelta a v s)) = baselineStats_mu s"
  "baselineStats_sigma (snd (getSmoothDelta a v s)) = baselineStats_sigma s"
  "normalizationEnabled (snd (getSmoothDelta a v s)) = normalizationEnabled s"
  "normMode (snd (getSmoothDelta a v s)) = normMode s"
  "normT0 (snd (getSmoothDelta a v s)) = normT0 s"
  "baseCnt (snd (getSmoothDelta a v s)) = baseCnt s"
  by (simp_all add: getSmoothDelta_def Let_def)

lemma eyeEmaUpdate_frame [simp]:
  "runningFlag (eyeEmaUpdate p s) = runningFlag s"
  "baselineCaptured (eyeEmaUpdate p s) = baselineCaptured s"
  "featBuf (eyeEmaUpdate p s) = featBuf s"
  "eyeClosedDebounced (eyeEmaUpdate p s) = eyeClosedDebounced s"
  "eyeDebOn (eyeEmaUpdate p s) = eyeDebOn s"
  "eyeDebOff (eyeEmaUpdate p s) = eyeDebOff s"
  "eyeRunLenFrames (eyeEmaUpdate p s) = eyeRunLenFrames s"
  "prolongedEyeActive (eyeEmaUpdate p s) = prolongedEyeActive s"
  "lastProlongStartFrame (eyeEmaUpdate p s) = lastProlongStartFrame s"
  "blinkPulse (eyeEmaUpdate p s) = blinkPulse s"
  "eyeRuns (eyeEmaUpdate p s) = eyeRuns s"
  "lastBlinkEndTime (eyeEmaUpdate p s) = lastBlinkEndTime s"
  "hasSeenBlink (eyeEmaUpdate p s) = hasSeenBlink s"
  "blinkState (eyeEmaUpdate p s) = blinkState s"
  "yawnEma1 (eyeEmaUpdate p s) = yawnEma1 s"
  "mouthOpen (eyeEmaUpdate p s) = mouthOpen s"
  "angleBufs (eyeEmaUpdate p s) = angleBufs s"
  "deltaEMA (eyeEmaUpdate p s) = deltaEMA s"
  "baselineStats_mu (eyeEmaUpdate p s) = baselineStats_mu s"
  "baselineStats_sigma (eyeEmaUpdate p s) = baselineStats_sigma s"
  "normalizationEnabled (eyeEmaUpdate p s) = normalizationEnabled s"
  "normMode (eyeEmaUpdate p s) = normMode s"
  "normT0 (eyeEmaUpdate p s) = normT0 s"
  "baseCnt (eyeEmaUpdate p s) = baseCnt s"
  by (simp_all add: eyeEmaUpdate_def Let_def)

lemma eyeDebounce_frame [simp]:
  "runningFlag (eyeDebounce t c s) = runningFlag s"
  "baselineCaptured (eyeDebounce t c s) = baselineCaptured s"
  "featBuf (eyeDebounce t c s) = featBuf s"
  "prolongedEyeActive (eyeDebounce t c s) = prolongedEyeActive s"
  "lastProlongStartFrame (eyeDebounce t c s) = lastProlongStartFrame s"
  "blinkState (eyeDebounce t c s) = blinkState s"
  "emaEye1 (eyeDebounce t c s) = emaEye1 s"
  "emaEye5 (eyeDebounce t c s) = emaEye5 s"
  "yawnEma1 (eyeDebounce t c s) = yawnEma1 s"
  "mouthOpen (eyeDebounce t c s) = mouthOpen s"
  "angleBufs (eyeDebounce t c s) = angleBufs s"
  "deltaEMA (eyeDebounce t c s) = deltaEMA s"
  "baselineStats_mu (eyeDebounce t c s) = baselineStats_mu s"
  "baselineStats_sigma (eyeDebounce t c s) = baselineStats_sigma s"
  "normalizationEnabled (eyeDebounce t c s) = normalizationEnabled s"
  "normMode (eyeDebounce t c s) = normMode s"
  "normT0 (eyeDebounce t c s) = normT0 s"
  "baseCnt (eyeDebounce t c s) = baseCnt s"
  by (simp_all add: eyeDebounce_def Let_def)

lemma eyeRunCount_frame [simp]:
  "runningFlag (eyeRunCount s) = runningFlag s"
  "baselineCaptured (eyeRunCount s) = baselineCaptured s"
  "featBuf (eyeRunCount s) = featBuf s"
  "eyeClosedDebounced (eyeRunCount s) = eyeClosedDebounced s"
  "eyeDebOn (eyeRunCount s) = eyeDebOn s"
  "eyeDebOff (eyeRunCount s) = eyeDebOff s"
  "prolongedEyeActive (eyeRunCount s) = prolongedEyeActive s"
  "lastProlongStartFrame (eyeRunCount s) = lastProlongStartFrame s"
  "blinkPulse (eyeRunCount s) = blinkPulse s"
  "eyeRuns (eyeRunCount s) = eyeRuns s"
  "lastBlinkEndTime (eyeRunCount s) = lastBlinkEndTime s"
  "hasSeenBlink (eyeRunCount s) = hasSeenBlink s"
  "blinkState (eyeRunCount s) = blinkState s"
  "emaEye1 (eyeRunCount s) = emaEye1 s"
  "emaEye5 (eyeRunCount s) = emaEye5 s"
  "yawnEma1 (eyeRunCount s) = yawnEma1 s"
  "mouthOpen (eyeRunCount s) = mouthOpen s"
  "angleBufs (eyeRunCount s) = angleBufs s"
  "deltaEMA (eyeRunCount s) = deltaEMA s"
  "baselineStats_mu (eyeRunCount s) = baselineStats_mu s"
  "baselineStats_sigma (eyeRunCount s) = baselineStats_sigma s"
  "normalizationEnabled (eyeRunCount s) = normalizationEnabled s"
  "normMode (eyeRunCount s) = normMode s"
  "normT0 (eyeRunCount s) = normT0 s"
  "baseCnt (eyeRunCount s) = baseCnt s"
  by (simp_all add: eyeRunCount_def)

lemma eyeProlonged_frame [simp]:
  "runningFlag (eyeProlonged s) = runningFlag s"
  "baselineCaptured (eyeProlonged s) = baselineCaptured s"
  "featBuf (eyeProlonged s) = featBuf s"
  "eyeClosedDebounced (eyeProlonged s) = eyeClosedDebounced s"
  "eyeDebOn (eyeProlonged s) = eyeDebOn s"
  "eyeDebOff (eyeProlonged s) = eyeDebOff s"
  "eyeRunLenFrames (eyeProlonged s) = eyeRunLenFrames s"
  "blinkPulse (eyeProlonged s) = blinkPulse s"
  "eyeRuns (eyeProlonged s) = eyeRuns s"
  "lastBlinkEndTime (eyeProlonged s) = lastBlinkEndTime s"
  "hasSeenBlink (eyeProlonged s) = hasSeenBlink s"
  "blinkState (eyeProlonged s) = blinkState s"
  "emaEye1 (eyeProlonged s) = emaEye1 s"
  "emaEye5 (eyeProlonged s) = emaEye5 s"
  "yawnEma1 (eyeProlonged s) = yawnEma1 s"
  "mouthOpen (eyeProlonged s) = mouthOpen s"
  "angleBufs (eyeProlonged s) = angleBufs s"
  "deltaEMA (eyeProlonged s) = deltaEMA s"
  "baselineStats_mu (eyeProlonged s) = baselineStats_mu s"
  "baselineStats_sigma (eyeProlonged s) = baselineStats_sigma s"
  "normalizationEnabled (eyeProlonged s) = normalizationEnabled s"
  "normMode (eyeProlonged s) = normMode s"
  "normT0 (eyeProlonged s) = normT0 s"
  "baseCnt (eyeProlonged s) = baseCnt s"
  by (simp_all add: eyeProlonged_def)

lemma blinkPulseStep_frame [simp]:
  "runningFlag (blinkPulseStep s) = runningFlag s"
  "baselineCaptured (blinkPulseStep s) = baselineCaptured s"
  "featBuf (blinkPulseStep s) = featBuf s"
  "eyeClosedDebounced (blinkPulseStep s) = eyeClosedDebounced s"
  "eyeDebOn (blinkPulseStep s) = eyeDebOn s"
  "eyeDebOff (blinkPulseStep s) = eyeDebOff s"
  "eyeRunLenFrames (blinkPulseStep s) = eyeRunLenFrames s"
  "prolongedEyeActive (blinkPulseStep s) = prolongedEyeActive s"
  "lastProlongStartFrame (blinkPulseStep s) = lastProlongStartFrame s"
  "eyeRuns (blinkPulseStep s) = eyeRuns s"
  "lastBlinkEndTime (blinkPulseStep s) = lastBlinkEndTime s"
  "hasSeenBlink (blinkPulseStep s) = hasSeenBlink s"
  "emaEye1 (blinkPulseStep s) = emaEye1 s"
  "emaEye5 (blinkPulseStep s) = emaEye5 s"
  "yawnEma1 (blinkPulseStep s) = yawnEma1 s"
  "mouthOpen (blinkPulseStep s) = mouthOpen s"
  "angleBufs (blinkPulseStep s) = angleBufs s"
  "deltaEMA (blinkPulseStep s) = deltaEMA s"
  "baselineStats_mu (blinkPulseStep s) = baselineStats_mu s"
  "baselineStats_sigma (blinkPulseStep s) = baselineStats_sigma s"
  "normalizationEnabled (blinkPulseStep s) = normalizationEnabled s"
  "normMode (blinkPulseStep s) = normMode s"
  "normT0 (blinkPulseStep s) = normT0 s"
  "baseCnt (blinkPulseStep s) = baseCnt s"
  by (simp_all add: blinkPulseStep_def Let_def)

lemma eyePipeline_frame [simp]:
  "runningFlag (eyePipeline f s) = runningFlag s"
  "baselineCaptured (eyePipeline f s) = baselineCaptured s"
  "featBuf (eyePipeline f s) = featBuf s"
  "yawnEma1 (eyePipeline f s) = yawnEma1 s"
  "mouthOpen (eyePipeline f s) = mouthOpen s"
  "angleBufs (eyePipeline f s) = angleBufs s"
  "deltaEMA (eyePipeline f s) = deltaEMA s"
  "baselineStats_mu (eyePipeline f s) = baselineStats_mu s"
  "baselineStats_sigma (eyePipeline f s) = baselineStats_sigma s"
  "normalizationEnabled (eyePipeline f s) = normalizationEnabled s"
  "normMode (eyePipeline f s) = normMode s"
  "normT0 (eyePipeline f s) = normT0 s"
  "baseCnt (eyePipeline f s) = baseCnt s"
  by (simp_all add: eyePipeline_def Let_def)

lemma yawnEmaUpdate_frame [simp]:
  "runningFlag (yawnEmaUpdate p s) = runningFlag s"
  "baselineCaptured (yawnEmaUpdate p s) = baselineCaptured s"
  "featBuf (yawnEmaUpdate p s) = featBuf s"
  "eyeClosedDebounced (yawnEmaUpdate p s) = eyeClosedDebounced s"
  "eyeDebOn (yawnEmaUpdate p s) = eyeDebOn s"
  "eyeDebOff (yawnEmaUpdate p s) = eyeDebOff s"
  "eyeRunLenFrames (yawnEmaUpdate p s) = eyeRunLenFrames s"
  "prolongedEyeActive (yawnEmaUpdate p s) = prolongedEyeActive s"
  "lastProlongStartFrame (yawnEmaUpdate p s) = lastProlongStartFrame s"
  "blinkPulse (yawnEmaUpdate p s) = blinkPulse s"
  "eyeRuns (yawnEmaUpdate p s) = eyeRuns s"
  "lastBlinkEndTime (yawnEmaUpdate p s) = lastBlinkEndTime s"
  "hasSeenBlink (yawnEmaUpdate p s) = hasSeenBlink s"
  "blinkState (yawnEmaUpdate p s) = blinkState s"
  "emaEye1 (yawnEmaUpdate p s) = emaEye1 s"
  "emaEye5 (yawnEmaUpdate p s) = emaEye5 s"
  "mouthOpen (yawnEmaUpdate p s) = mouthOpen s"
  "angleBufs (yawnEmaUpdate p s) = angleBufs s"
  "deltaEMA (yawnEmaUpdate p s) = deltaEMA s"
  "baselineStats_mu (yawnEmaUpdate p s) = baselineStats_mu s"
  "baselineStats_sigma (yawnEmaUpdate p s) = baselineStats_sigma s"
  "normalizationEnabled (yawnEmaUpdate p s) = normalizationEnabled s"
  "normMode (yawnEmaUpdate p s) = normMode s"
  "normT0 (yawnEmaUpdate p s) = normT0 s"
  "baseCnt (yawnEmaUpdate p s) = baseCnt s"
  by (simp_all add: yawnEmaUpdate_def Let_def)

lemma mouthHysteresis_frame [simp]:
  "runningFlag (mouthHysteresis t s) = runningFlag s"
  "baselineCaptured (mouthHysteresis t s) = baselineCaptured s"
  "featBuf (mouthHysteresis t s) = featBuf s"
  "eyeClosedDebounced (mouthHysteresis t s) = eyeClosedDebounced s"
  "eyeDebOn (mouthHysteresis t s) = eyeDebOn s"
  "eyeDebOff (mouthHysteresis t s) = eyeDebOff s"
  "eyeRunLenFrames (mouthHysteresis t s) = eyeRunLenFrames s"
  "prolongedEyeActive (mouthHysteresis t s) = prolongedEyeActive s"
  "lastProlongStartFrame (mouthHysteresis t s) = lastProlongStartFrame s"
  "blinkPulse (mouthHysteresis t s) = blinkPulse s"
  "eyeRuns (mouthHysteresis t s) = eyeRuns s"
  "lastBlinkEndTime (mouthHysteresis t s) = lastBlinkEndTime s"
  "hasSeenBlink (mouthHysteresis t s) = hasSeenBlink s"
  "blinkState (mouthHysteresis t s) = blinkState s"
  "emaEye1 (mouthHysteresis t s) = emaEye1 s"
  "emaEye5 (mouthHysteresis t s) = emaEye5 s"
  "yawnEma1 (mouthHysteresis t s) = yawnEma1 s"
  "angleBufs (mouthHysteresis t s) = angleBufs s"
  "deltaEMA (mouthHysteresis t s) = deltaEMA s"
  "baselineStats_mu (mouthHysteresis t s) = baselineStats_mu s"
  "baselineStats_sigma (mouthHysteresis t s) = baselineStats_sigma s"
  "normalizationEnabled (mouthHysteresis t s) = normalizationEnabled s"
  "normMode (mouthHysteresis t s) = normMode s"
  "normT0 (mouthHysteresis t s) = normT0 s"
  "baseCnt (mouthHysteresis t s) = baseCnt s"
  by (simp_all add: mouthHysteresis_def Let_def)

lemma yawnPulseStep_frame [simp]:
  "runningFlag (yawnPulseStep s) = runningFlag s"
  "baselineCaptured (yawnPulseStep s) = baselineCaptured s"
  "featBuf (yawnPulseStep s) = featBuf s"
  "eyeClosedDebounced (yawnPulseStep s) = eyeClosedDebounced s"
  "eyeDebOn (yawnPulseStep s) = eyeDebOn s"
  "eyeDebOff (yawnPulseStep s) = eyeDebOff s"
  "eyeRunLenFrames (yawnPulseStep s) = eyeRunLenFrames s"
  "prolongedEyeActive (yawnPulseStep s) = prolongedEyeActive s"
  "lastProlongStartFrame (yawnPulseStep s) = lastProlongStartFrame s"
  "blinkPulse (yawnPulseStep s) = blinkPulse s"
  "eyeRuns (yawnPulseStep s) = eyeRuns s"
  "lastBlinkEndTime (yawnPulseStep s) = lastBlinkEndTime s"
  "hasSeenBlink (yawnPulseStep s) = hasSeenBlink s"
  "blinkState (yawnPulseStep s) = blinkState s"
  "emaEye1 (yawnPulseStep s) = emaEye1 s"
  "emaEye5 (yawnPulseStep s) = emaEye5 s"
  "yawnEma1 (yawnPulseStep s) = yawnEma1 s"
  "mouthOpen (yawnPulseStep s) = mouthOpen s"
  "angleBufs (yawnPulseStep s) = angleBufs s"
  "deltaEMA (yawnPulseStep s) = deltaEMA s"
  "baselineStats_mu (yawnPulseStep s) = baselineStats_mu s"
  "baselineStats_sigma (yawnPulseStep s) = baselineStats_sigma s"
  "normalizationEnabled (yawnPulseStep s) = normalizationEnabled s"
  "normMode (yawnPulseStep s) = normMode s"
  "normT0 (yawnPulseStep s) = normT0 s"
  "baseCnt (yawnPulseStep s) = baseCnt s"
  by (simp_all add: yawnPulseStep_def)

lemma mouthPipeline_frame [simp]:
  "runningFlag (mouthPipeline f s) = runningFlag s"
  "baselineCaptured (mouthPipeline f s) = baselineCaptured s"
  "featBuf (mouthPipeline f s) = featBuf s"
  "eyeClosedDebounced (mouthPipeline f s) = eyeClosedDebounced s"
  "eyeDebOn (mouthPipeline f s) = eyeDebOn s"
  "eyeDebOff (mouthPipeline f s) = eyeDebOff s"
  "eyeRunLenFrames (mouthPipeline f s) = eyeRunLenFrames s"
  "prolongedEyeActive (mouthPipeline f s) = prolongedEyeActive s"
  "lastProlongStartFrame (mouthPipeline f s) = lastProlongStartFrame s"
  "blinkPulse (mouthPipeline f s) = blinkPulse s"
  "eyeRuns (mouthPipeline f s) = eyeRuns s"
  "lastBlinkEndTime (mouthPipeline f s) = lastBlinkEndTime s"
  "hasSeenBlink (mouthPipeline f s) = hasSeenBlink s"
  "blinkState (mouthPipeline f s) = blinkState s"
  "emaEye1 (mouthPipeline f s) = emaEye1 s"
  "emaEye5 (mouthPipeline f s) = emaEye5 s"
  "angleBufs (mouthPipeline f s) = angleBufs s"
  "deltaEMA (mouthPipeline f s) = deltaEMA s"
  "baselineStats_mu (mouthPipeline f s) = baselineStats_mu s"
  "baselineStats_sigma (mouthPipeline f s) = baselineStats_sigma s"
  "normalizationEnabled (mouthPipeline f s) = normalizationEnabled s"
  "normMode (mouthPipeline f s) = normMode s"
  "normT0 (mouthPipeline f s) = normT0 s"
  "baseCnt (mouthPipeline f s) = baseCnt s"
  by (simp_all add: mouthPipeline_def)

lemma nodRule_frame [simp]:
  "runningFlag (nodRule f s) = runningFlag s"
  "baselineCaptured (nodRule f s) = baselineCaptured s"
  "featBuf (nodRule f s) = featBuf s"
  "eyeClosedDebounced (nodRule f s) = eyeClosedDebounced s"
  "eyeDebOn (nodRule f s) = eyeDebOn s"
  "eyeDebOff (nodRule f s) = eyeDebOff s"
  "eyeRunLenFrames (nodRule f s) = eyeRunLenFrames s"
  "prolongedEyeActive (nodRule f s) = prolongedEyeActive s"
  "lastProlongStartFrame (nodRule f s) = lastProlongStartFrame s"
  "blinkPulse (nodRule f s) = blinkPulse s"
  "eyeRuns (nodRule f s) = eyeRuns s"
  "lastBlinkEndTime (nodRule f s) = lastBlinkEndTime s"
  "hasSeenBlink (nodRule f s) = hasSeenBlink s"
  "blinkState (nodRule f s) = blinkState s"
  "emaEye1 (nodRule f s) = emaEye1 s"
  "emaEye5 (nodRule f s) = emaEye5 s"
  "yawnEma1 (nodRule f s) = yawnEma1 s"
  "mouthOpen (nodRule f s) = mouthOpen s"
  "angleBufs (nodRule f s) = angleBufs s"
  "deltaEMA (nodRule f s) = deltaEMA s"
  "baselineStats_mu (nodRule f s) = baselineStats_mu s"
  "baselineStats_sigma (nodRule f s) = baselineStats_sigma s"
  "normalizationEnabled (nodRule f s) = normalizationEnabled s"
  "normMode (nodRule f s) = normMode s"
  "normT0 (nodRule f s) = normT0 s"
  "baseCnt (nodRule f s) = baseCnt s"
  by (simp_all add: nodRule_def Let_def)

lemma addNormSample_frame [simp]:
  "runningFlag (addNormSample vec s) = runningFlag s"
  "baselineCaptured (addNormSample vec s) = baselineCaptured s"
  "featBuf (addNormSample vec s) = featBuf s"
  "eyeClosedDebounced (addNormSample vec s) = eyeClosedDebounced s"
  "eyeDebOn (addNormSample vec s) = eyeDebOn s"
  "eyeDebOff (addNormSample vec s) = eyeDebOff s"
  "eyeRunLenFrames (addNormSample vec s) = eyeRunLenFrames s"
  "prolongedEyeActive (addNormSample vec s) = prolongedEyeActive s"
  "lastProlongStartFrame (addNormSample vec s) = lastProlongStartFrame s"
  "blinkPulse (addNormSample vec s) = blinkPulse s"
  "eyeRuns (addNormSample vec s) = eyeRuns s"
  "lastBlinkEndTime (addNormSample vec s) = lastBlinkEndTime s"
  "hasSeenBlink (addNormSample vec s) = hasSeenBlink s"
  "blinkState (addNormSample vec s) = blinkState s"
  "emaEye1 (addNormSample vec s) = emaEye1 s"
  "emaEye5 (addNormSample vec s) = emaEye5 s"
  "yawnEma1 (addNormSample vec s) = yawnEma1 s"
  "mouthOpen (addNormSample vec s) = mouthOpen s"
  "angleBufs (addNormSample vec s) = angleBufs s"
  "deltaEMA (addNormSample vec s) = deltaEMA s"
  "baselineStats_mu (addNormSample vec s) = baselineStats_mu s"
  "baselineStats_sigma (addNormSample vec s) = baselineStats_sigma s"
  "normalizationEnabled (addNormSample vec s) = normalizationEnabled s"
  "normMode (addNormSample vec s) = normMode s"
  "normT0 (addNormSample vec s) = normT0 s"
  by (simp_all add: addNormSample_def)

lemma finalizeNorm_frame [simp]:
  "runningFlag (snd (finalizeNorm s)) = runningFlag s"
  "baselineCaptured (snd (finalizeNorm s)) = baselineCaptured s"
  "featBuf (snd (finalizeNorm s)) = featBuf s"
  "eyeClosedDebounced (snd (finalizeNorm s)) = eyeClosedDebounced s"
  "eyeDebOn (snd (finalizeNorm s)) = eyeDebOn s"
  "eyeDebOff (snd (finalizeNorm s)) = eyeDebOff s"
  "eyeRunLenFrames (snd (finalizeNorm s)) = eyeRunLenFrames s"
  "prolongedEyeActive (snd (finalizeNorm s)) = prolongedEyeActive s"
  "lastProlongStartFrame (snd (finalizeNorm s)) = lastProlongStartFrame s"
  "blinkPulse (snd (finalizeNorm s)) = blinkPulse s"
  "eyeRuns (snd (finalizeNorm s)) = eyeRuns s"
  "lastBlinkEndTime (snd (finalizeNorm s)) = lastBlinkEndTime s"
  "hasSeenBlink (snd (finalizeNorm s)) = hasSeenBlink s"
  "blinkState (snd (finalizeNorm s)) = blinkState s"
  "emaEye1 (snd (finalizeNorm s)) = emaEye1 s"
  "emaEye5 (snd (finalizeNorm s)) = emaEye5 s"
  "yawnEma1 (snd (finalizeNorm s)) = yawnEma1 s"
  "mouthOpen (snd (finalizeNorm s)) = mouthOpen s"
  "angleBufs (snd (finalizeNorm s)) = angleBufs s"
  "deltaEMA (snd (finalizeNorm s)) = deltaEMA s"
  "normalizationEnabled (snd (finalizeNorm s)) = normalizationEnabled s"
  "normMode (snd (finalizeNorm s)) = normMode s"
  "normT0 (snd (finalizeNorm s)) = normT0 s"
  "baseCnt (snd (finalizeNorm s)) = baseCnt s"
  by (simp_all add: finalizeNorm_def Let_def)

lemma normCollect_frame [simp]:
  "runningFlag (normCollect t raw s) = runningFlag s"
  "baselineCaptured (normCollect t raw s) = baselineCaptured s"
  "featBuf (normCollect t raw s) = featBuf s"
  "eyeClosedDebounced (normCollect t raw s) = eyeClosedDebounced s"
  "eyeDebOn (normCollect t raw s) = eyeDebOn s"
  "eyeDebOff (normCollect t raw s) = eyeDebOff s"
  "eyeRunLenFrames (normCollect t raw s) = eyeRunLenFrames s"
  "prolongedEyeActive (normCollect t raw s) = prolongedEyeActive s"
  "lastProlongStartFrame (normCollect t raw s) = lastProlongStartFrame s"
  "blinkPulse (normCollect t raw s) = blinkPulse s"
  "eyeRuns (normCollect t raw s) = eyeRuns s"
  "lastBlinkEndTime (normCollect t raw s) = lastBlinkEndTime s"
  "hasSeenBlink (normCollect t raw s) = hasSeenBlink s"
  "blinkState (normCollect t raw s) = blinkState s"
  "emaEye1 (normCollect t raw s) = emaEye1 s"
  "emaEye5 (normCollect t raw s) = emaEye5 s"
  "yawnEma1 (normCollect t raw s) = yawnEma1 s"
  "mouthOpen (normCollect t raw s) = mouthOpen s"
  "angleBufs (normCollect t raw s) = angleBufs s"
  "deltaEMA (normCollect t raw s) = deltaEMA s"
  "normalizationEnabled (normCollect t raw s) = normalizationEnabled s"
  "normT0 (normCollect t raw s) = normT0 s"
  by (simp_all add: normCollect_def Let_def)

lemma pushFrameFeatures_frame [simp]:
  "runningFlag (pushFrameFeatures raw s) = runningFlag s"
  "baselineCaptured (pushFrameFeatures raw s) = baselineCaptured s"
  "eyeClosedDebounced (pushFrameFeatures raw s) = eyeClosedDebounced s"
  "eyeDebOn (pushFrameFeatures raw s) = eyeDebOn s"
  "eyeDebOff (pushFrameFeatures raw s) = eyeDebOff s"
  "eyeRunLenFrames (pushFrameFeatures raw s) = eyeRunLenFrames s"
  "prolongedEyeActive (pushFrameFeatures raw s) = prolongedEyeActive s"
  "lastProlongStartFrame (pushFrameFeatures raw s) = lastProlongStartFrame s"
  "blinkPulse (pushFrameFeatures raw s) = blinkPulse s"
  "eyeRuns (pushFrameFeatures raw s) = eyeRuns s"
  "lastBlinkEndTime (pushFrameFeatures raw s) = lastBlinkEndTime s"
  "hasSeenBlink (pushFrameFeatures raw s) = hasSeenBlink s"
  "blinkState (pushFrameFeatures raw s) = blinkState s"
  "emaEye1 (pushFrameFeatures raw s) = emaEye1 s"
  "emaEye5 (pushFrameFeatures raw s) = emaEye5 s"
  "yawnEma1 (pushFrameFeatures raw s) = yawnEma1 s"
  "mouthOpen (pushFrameFeatures raw s) = mouthOpen s"
  "angleBufs (pushFrameFeatures raw s) = angleBufs s"
  "deltaEMA (pushFrameFeatures raw s) = deltaEMA s"
  "baselineStats_mu (pushFrameFeatures raw s) = baselineStats_mu s"
  "baselineStats_sigma (pushFrameFeatures raw s) = baselineStats_sigma s"
  "normalizationEnabled (pushFrameFeatures raw s) = normalizationEnabled s"
  "normMode (pushFrameFeatures raw s) = normMode s"
  "normT0 (pushFrameFeatures raw s) = normT0 s"
  "baseCnt (pushFrameFeatures raw s) = baseCnt s"
  by (simp_all add: pushFrameFeatures_def Let_def)

lemma tcnPredictIfReady_frame [simp]:
  "runningFlag (fst (tcnPredictIfReady m s)) = runningFlag s"
  "baselineCaptured (fst (tcnPredictIfReady m s)) = baselineCaptured s"
  "featBuf (fst (tcnPredictIfReady m s)) = featBuf s"
  "eyeClosedDebounced (fst (tcnPredictIfReady m s)) = eyeClosedDebounced s"
  "eyeDebOn (fst (tcnPredictIfReady m s)) = eyeDebOn s"
  "eyeDebOff (fst (tcnPredictIfReady m s)) = eyeDebOff s"
  "eyeRunLenFrames (fst (tcnPredictIfReady m s)) = eyeRunLenFrames s"
  "prolongedEyeActive (fst (tcnPredictIfReady m s)) = prolongedEyeActive s"
  "lastProlongStartFrame (fst (tcnPredictIfReady m s)) = lastProlongStartFrame s"
  "blinkPulse (fst (tcnPredictIfReady m s)) = blinkPulse s"
  "eyeRuns (fst (tcnPredictIfReady m s)) = eyeRuns s"
  "lastBlinkEndTime (fst (tcnPredictIfReady m s)) = lastBlinkEndTime s"
  "hasSeenBlink (fst (tcnPredictIfReady m s)) = hasSeenBlink s"
  "blinkState (fst (tcnPredictIfReady m s)) = blinkState s"
  "emaEye1 (fst (tcnPredictIfReady m s)) = emaEye1 s"
  "emaEye5 (fst (tcnPredictIfReady m s)) = emaEye5 s"
  "yawnEma1 (fst (tcnPredictIfReady m s)) = yawnEma1 s"
  "mouthOpen (fst (tcnPredictIfReady m s)) = mouthOpen s"
  "angleBufs (fst (tcnPredictIfReady m s)) = angleBufs s"
  "deltaEMA (fst (tcnPredictIfReady m s)) = deltaEMA s"
  "baselineStats_mu (fst (tcnPredictIfReady m s)) = baselineStats_mu s"
  "baselineStats_sigma (fst (tcnPredictIfReady m s)) = baselineStats_sigma s"
  "normalizationEnabled (fst (tcnPredictIfReady m s)) = normalizationEnabled s"
  "normMode (fst (tcnPredictIfReady m s)) = normMode s"
  "normT0 (fst (tcnPredictIfReady m s)) = normT0 s"
  "baseCnt (fst (tcnPredictIfReady m s)) = baseCnt s"
  by (simp_all add: tcnPredictIfReady_def Let_def split: option.splits)

subsection \<open>The eye debounce as a function of its own variables\<close>

lemma eyeDebounce_counters:
  "eyeDebOn (eyeDebounce t c s) = (if c then eyeDebOn s + 1 else 0)"
  "eyeDebOff (eyeDebounce t c s) = (if c then 0 else eyeDebOff s + 1)"
  "eyeClosedDebounced (eyeDebounce t c s) =
     (if c then eyeClosedDebounced s \<or> 2 \<le> eyeDebOn s + 1
      else eyeClosedDebounced s \<and> eyeDebOff s + 1 < 2)"
  "eyeRunLenFrames (eyeDebounce t c s) =
     (if eyeClosedDebounced (eyeDebounce t c s) = eyeClosedDebounced s
      then eyeRunLenFrames s else 0)"
  by (auto simp add: eyeDebounce_def Let_def EYE_DEBOUNCE_ON_F_def EYE_DEBOUNCE_OFF_F_def)

lemma eyeRunCount_len:
  "eyeRunLenFrames (eyeRunCount s) =
     (if eyeClosedDebounced s then eyeRunLenFrames s + 1 else eyeRunLenFrames s)"
  by (simp add: eyeRunCount_def)

lemma eyeProlonged_vars:
  "prolongedEyeActive (eyeProlonged s) =
     (eyeClosedDebounced s \<and>
      (prolongedEyeActive s \<or>
       (\<not> prolongedEyeActive s \<and> 12 \<le> eyeRunLenFrames s
        \<and> 30 \<le> int (length (featBuf s)) - lastProlongStartFrame s)))"
  "lastProlongStartFrame (eyeProlonged s) =
     (if eyeClosedDebounced s \<and> \<not> prolongedEyeActive s \<and> 12 \<le> eyeRunLenFrames s
         \<and> 30 \<le> int (length (featBuf s)) - lastProlongStartFrame s
      then int (length (featBuf s)) else lastProlongStartFrame s)"
  by (auto simp add: eyeProlonged_def FRM_2P5S_val BLINK_LOCK_FRM_val)

lemma eyePipeline_core:
  "eyeCore (eyePipeline f s) =
     (case eyeCoreStep (eyeClosedRaw (unifiedEyeProb f)) (eyeCore s) of
        (deb, on, off, run, prol, lastStart, n) \<Rightarrow>
          (deb, on, off, run, prol, lastStart, length (featBuf s)))"
  by (simp add: eyeCore_def eyePipeline_def Let_def eyeDebounce_counters eyeRunCount_len
        eyeProlonged_vars)

lemma pushFrameFeatures_length:
  "length (featBuf (pushFrameFeatures raw s)) =
     (if length (featBuf s) + 1 > 90 then length (featBuf s) else length (featBuf s) + 1)"
  by (simp add: pushFrameFeatures_def Let_def TCN_WINDOW_def)

lemma tick_skip: "\<not> runningFlag s \<or> \<not> face f \<Longrightarrow> tick m s f = s"
  by (auto simp add: tick_def onResults_def)

lemma tick_runningFlag [simp]: "runningFlag (tick m s f) = runningFlag s"
  by (simp add: tick_def onResults_def Let_def)

lemma tick_core:
  assumes "runningFlag s" "face f"
  shows "eyeCore (tick m s f) = eyeCoreStep (eyeClosedRaw (unifiedEyeProb f)) (eyeCore s)"
proof -
  let ?pre = "snd (getSmoothDelta Roll (rollDeg f) (snd (getSmoothDelta Pitch (pitchDeg f)
                (snd (getSmoothDelta Yaw (yawDeg f) (baselineSnapshot f s))))))"
  have pre: "eyeCore ?pre = eyeCore s" by (simp add: eyeCore_def)
  have "eyeCore (tick m s f) =
          (case eyeCore (eyePipeline f ?pre) of
             (deb, on, off, run, prol, lastStart, n) \<Rightarrow>
               (deb, on, off, run, prol, lastStart, if n + 1 > 90 then n else n + 1))"
    using assms
    by (simp add: tick_def onResults_def Let_def eyeCore_def pushFrameFeatures_length)
  also have "\<dots> = eyeCoreStep (eyeClosedRaw (unifiedEyeProb f)) (eyeCore s)"
    unfolding eyePipeline_core pre
    by (cases "eyeCore s") (simp add: Let_def eyeCore_def)
  finally show ?thesis .
qed

text \<open>Whenever the eye is not debounced-closed after a tick, the prolonged flag is false.\<close>

lemma prolonged_only_while_closed:
  assumes "runningFlag s" "face f"
  shows "prolongedEyeActive (tick m s f) \<longrightarrow> eyeClosedDebounced (tick m s f)"
proof -
  obtain deb on off run prol lastStart n
    where c: "eyeCore s = (deb, on, off, run, prol, lastStart, n)"
    by (cases "eyeCore s") auto
  have "eyeCore (tick m s f) = eyeCoreStep (eyeClosedRaw (unifiedEyeProb f)) (eyeCore s)"
    using assms by (rule tick_core)
  then show ?thesis
    unfolding c by (auto simp add: eyeCore_def Let_def)
qed

lemma ticks_core:
  "runningFlag s \<Longrightarrow> \<forall>f \<in> set fs. face f \<Longrightarrow>
   eyeCore (ticks m s fs) =
     foldl (\<lambda>c f. eyeCoreStep (eyeClosedRaw (unifiedEyeProb f)) c) (eyeCore s) fs"
proof (induction fs arbitrary: s)
  case Nil
  then show ?case by (simp add: ticks_def)
next
  case (Cons f fs)
  have "eyeCore (ticks m (tick m s f) fs) =
          foldl (\<lambda>c f. eyeCoreStep (eyeClosedRaw (unifiedEyeProb f)) c) (eyeCore (tick m s f)) fs"
    using Cons.prems by (intro Cons.IH [unfolded ticks_def, folded ticks_def]) simp_all
  then show ?case using Cons.prems by (simp add: ticks_def tick_core)
qed

lemma lockoutTrace_core:
  "eyeCore (ticks m (startProcessing True bootState) (lockoutTrace n)) =
     foldl (\<lambda>c i. eyeCoreStep (lockoutClosed i) c) (False, 0, 0, 0, False, - 1000000000, 0) [0..<n]"
proof -
  have "eyeCore (ticks m (startProcessing True bootState) (lockoutTrace n)) =
          foldl (\<lambda>c f. eyeCoreStep (eyeClosedRaw (unifiedEyeProb f)) c)
            (eyeCore (startProcessing True bootState)) (lockoutTrace n)"
    by (rule ticks_core) (simp_all add: startProcessing_def lockoutTrace_def plainFrame_def)
  also have "eyeCore (startProcessing True bootState) = (False, 0, 0, 0, False, - 1000000000, 0)"
    by (simp add: eyeCore_def startProcessing_def)
  also have "foldl (\<lambda>c f. eyeCoreStep (eyeClosedRaw (unifiedEyeProb f)) c)
               (False, 0, 0, 0, False, - 1000000000, 0) (lockoutTrace n) =
             foldl (\<lambda>c i. eyeCoreStep (lockoutClosed i) c)
               (False, 0, 0, 0, False, - 1000000000, 0) [0..<n]"
  proof -
    have cl: "eyeClosedRaw (if lockoutClosed i then Fin 0.1 else Fin 0.9) = lockoutClosed i" for i
      by (simp add: eyeClosedRaw_def EYE_CLOSE_T_def)
    show ?thesis by (simp add: lockoutTrace_def foldl_map plainFrame_def cl)
  qed
  finally show ?thesis .
qed

lemma core103:
  "foldl (\<lambda>c i. eyeCoreStep (lockoutClosed i) c) (False, 0, 0, 0, False, - 1000000000, 0) [0..<103]
     = (True, 13, 0, 12, True, 90, 90)"
  by code_simp

lemma core158:
  "foldl (\<lambda>c i. eyeCoreStep (lockoutClosed i) c) (False, 0, 0, 0, False, - 1000000000, 0) [0..<158]
     = (True, 13, 0, 12, False, 90, 90)"
  by code_simp

subsection \<open>The ring buffer\<close>

lemma ring_inv_new: "ring_inv n [] (Ring_new n)"
  by (simp add: ring_inv_def Ring_new_def)

lemma ring_inv_push:
  assumes n: "0 < n" and inv: "ring_inv n vs r"
  shows "ring_inv n (vs @ [v]) (Ring_push v r)"
proof (cases "length vs < n")
  case True
  then have cnt: "count_ring r = length vs" and i: "i_ring r = length vs"
    using inv by (simp_all add: ring_inv_def)
  have sum: "sum_ring r = sum_list vs" using inv True by (simp add: ring_inv_def)
  have buf: "\<And>j. j < length vs \<Longrightarrow> buf_ring r ! j = vs ! j"
    using inv True by (simp add: ring_inv_def)
  have len: "length (buf_ring r) = n" "n_ring r = n" using inv by (simp_all add: ring_inv_def)
  show ?thesis
    unfolding ring_inv_def Ring_push_def
    using cnt i sum len True buf
    by (auto simp: nth_append nth_list_update less_Suc_eq)
next
  case False
  then have ge: "n \<le> length vs" by simp
  have len: "length (buf_ring r) = n" "n_ring r = n" using inv by (simp_all add: ring_inv_def)
  have cnt: "count_ring r = n" using inv ge by (simp add: ring_inv_def)
  have i: "i_ring r = length vs mod n" using inv by (simp add: ring_inv_def)
  have sum: "sum_ring r = sum_list (drop (length vs - n) vs)" using inv by (simp add: ring_inv_def)
  have buf: "\<And>j. length vs - n \<le> j \<Longrightarrow> j < length vs \<Longrightarrow> buf_ring r ! (j mod n) = vs ! j"
    using inv by (simp add: ring_inv_def)
  have old: "buf_ring r ! i_ring r = vs ! (length vs - n)"
  proof -
    have "(length vs - n) mod n = length vs mod n"
      using ge by (metis le_mod_geq mod_less_divisor n mod_mod_trivial le_add_diff_inverse2 mod_add_self2)
    moreover have "length vs - n < length vs" using n ge by simp
    ultimately show ?thesis using buf [of "length vs - n"] i by simp
  qed
  have dr: "drop (length vs - n) vs = vs ! (length vs - n) # drop (Suc (length vs - n)) vs"
    using n ge by (simp add: Cons_nth_drop_Suc)
  have sum': "sum_ring r - buf_ring r ! i_ring r + v = sum_list (drop (Suc (length vs) - n) (vs @ [v]))"
  proof -
    have "Suc (length vs) - n = Suc (length vs - n)" using ge by (simp add: Suc_diff_le)
    moreover have "Suc (length vs - n) \<le> length vs" using n ge by simp
    ultimately have "drop (Suc (length vs) - n) (vs @ [v]) = drop (Suc (length vs - n)) vs @ [v]"
      by simp
    then show ?thesis using sum old dr by simp
  qed
  have buf': "(buf_ring r)[i_ring r := v] ! (j mod n) = (vs @ [v]) ! j"
    if "Suc (length vs) - n \<le> j" "j < Suc (length vs)" for j
  proof (cases "j = length vs")
    case True
    then show ?thesis using i len n by simp
  next
    case False
    then have jl: "j < length vs" using that by simp
    have "j mod n \<noteq> length vs mod n"
    proof
      assume eq: "j mod n = length vs mod n"
      have "(length vs - j) mod n = 0"
        using eq jl by (metis mod_eq_dvd_iff_nat less_imp_le_nat dvd_imp_mod_0 )
      moreover have "0 < length vs - j" "length vs - j < n" using jl that ge by auto
      ultimately show False by simp
    qed
    moreover have "length vs - n \<le> j" using that by simp
    ultimately show ?thesis using buf [of j] jl i by (simp add: nth_append)
  qed
  show ?thesis
    unfolding ring_inv_def Ring_push_def
    using cnt len ge sum' buf' i n
    by (auto simp: mod_Suc)
qed

lemma ring_inv_pushes: "0 < n \<Longrightarrow> ring_inv n vs (Ring_pushes (Ring_new n) vs)"
proof (induction vs rule: rev_induct)
  case Nil
  then show ?case by (simp add: Ring_pushes_def ring_inv_new)
next
  case (snoc v vs)
  then show ?case using ring_inv_push [of n vs _ v] by (simp add: Ring_pushes_def)
qed

lemma Ring_reset_is_new:
  "length (buf_ring r) = n_ring r \<Longrightarrow> Ring_reset r = Ring_new (n_ring r)"
  by (simp add: Ring_reset_def Ring_new_def map_replicate_const)

lemma Ring_window_mean:
  assumes "0 < n"
  shows "count_ring (Ring_pushes (Ring_new n) vs) = min (length vs) n"
    and "Ring_mean (Ring_pushes (Ring_new n) vs) =
           (if vs = [] then 0
            else sum_list (drop (length vs - n) vs) / real (length (drop (length vs - n) vs)))"
proof -
  have inv: "ring_inv n vs (Ring_pushes (Ring_new n) vs)"
    using assms by (rule ring_inv_pushes)
  show cnt: "count_ring (Ring_pushes (Ring_new n) vs) = min (length vs) n"
    using inv by (simp add: ring_inv_def)
  have len: "length (drop (length vs - n) vs) = min (length vs) n" by auto
  have sm: "sum_ring (Ring_pushes (Ring_new n) vs) = sum_list (drop (length vs - n) vs)"
    using inv by (simp add: ring_inv_def)
  show "Ring_mean (Ring_pushes (Ring_new n) vs) =
           (if vs = [] then 0
            else sum_list (drop (length vs - n) vs) / real (length (drop (length vs - n) vs)))"
    unfolding Ring_mean_def cnt sm len using assms by (cases vs) simp_all
qed

text \<open>
  Claim C4. The ring \<^verbatim>\<open>rbEyeClosed\<close> has capacity 450 and receives the raw closed signal
  (0 or 1) of each frame. After any sequence of pushes, longer than the capacity or not,
  its count is the number of samples in the trailing window of at most 450 samples, never
  more than 450, and \<^verbatim>\<open>mean()\<close> is the sum of exactly these samples divided by their
  number (0 before the first push).
\<close>

theorem C4_ring_mean_is_window_mean:
  "let vs = map (\<lambda>p. num_of_bool (eyeClosedRaw p)) ps;
       r = Ring_pushes (Ring_new PER_30S) vs;
       w = drop (length vs - 450) vs
   in count_ring r = length w \<and> count_ring r \<le> 450 \<and> length w = min (length ps) 450 \<and>
      Ring_mean r = (if ps = [] then 0 else sum_list w / real (length w))"
proof -
  have pos: "0 < (450::nat)" by simp
  show ?thesis
    unfolding PER_30S_val Let_def
    using Ring_window_mean [OF pos, of "map (\<lambda>p. num_of_bool (eyeClosedRaw p)) ps"]
    by auto
qed

theorem C4_ring_mean_witness:
  "Ring_mean (Ring_pushes (Ring_new PER_30S)
       (map (\<lambda>p. num_of_bool (eyeClosedRaw p)) (replicate 450 (Fin 0.1) @ [Fin 0.9])))
     = 449 / 450"
  using C4_ring_mean_is_window_mean [of "replicate 450 (Fin 0.1) @ [Fin 0.9]"]
  by (simp add: Let_def eyeClosedRaw_def num_of_bool_def EYE_CLOSE_T_def sum_list_replicate)

subsection \<open>Prolonged eye closure\<close>

text \<open>
  Claim C1. The lockout of the prolonged-closure flag is written as a number of ticks
  since the last start, but the code measures it as \<^verbatim>\<open>featBuf.length - lastProlongStartFrame\<close>,
  and \<^verbatim>\<open>featBuf.length\<close> stops growing at 90. In the session \<open>lockoutTrace\<close> the first
  closure makes the flag active at frame 102, when the buffer is full, so the stored start
  is 90. The second closure reaches a run length of 12 at frame 157, 55 ticks after that
  start, with the eye debounced-closed: the flag stays false, because the difference of
  the buffer lengths is 0.
\<close>

theorem C1_lockout_reads_buffer_length:
  "let s0 = startProcessing True bootState;
       s1 = ticks m s0 (lockoutTrace 103);
       s2 = ticks m s0 (lockoutTrace 158)
   in prolongedEyeActive s1 \<and> lastProlongStartFrame s1 = 90 \<and> length (featBuf s1) = 90 \<and>
      eyeClosedDebounced s2 \<and> eyeRunLenFrames s2 = 12 \<and> length (featBuf s2) = 90 \<and>
      lastProlongStartFrame s2 = 90 \<and> \<not> prolongedEyeActive s2"
proof -
  have a: "eyeCore (ticks m (startProcessing True bootState) (lockoutTrace 103))
             = (True, 13, 0, 12, True, 90, 90)"
    unfolding lockoutTrace_core by (rule core103)
  have b: "eyeCore (ticks m (startProcessing True bootState) (lockoutTrace 158))
             = (True, 13, 0, 12, False, 90, 90)"
    unfolding lockoutTrace_core by (rule core158)
  show ?thesis using a b by (simp add: Let_def eyeCore_def)
qed


subsection \<open>Single ticks and traces\<close>

lemma beforeEye_frame [simp]:
  "runningFlag (beforeEye f s) = runningFlag s"
  "featBuf (beforeEye f s) = featBuf s"
  "eyeClosedDebounced (beforeEye f s) = eyeClosedDebounced s"
  "eyeDebOn (beforeEye f s) = eyeDebOn s"
  "eyeDebOff (beforeEye f s) = eyeDebOff s"
  "eyeRunLenFrames (beforeEye f s) = eyeRunLenFrames s"
  "prolongedEyeActive (beforeEye f s) = prolongedEyeActive s"
  "lastProlongStartFrame (beforeEye f s) = lastProlongStartFrame s"
  "blinkPulse (beforeEye f s) = blinkPulse s"
  "eyeRuns (beforeEye f s) = eyeRuns s"
  "lastBlinkEndTime (beforeEye f s) = lastBlinkEndTime s"
  "hasSeenBlink (beforeEye f s) = hasSeenBlink s"
  "blinkState (beforeEye f s) = blinkState s"
  "emaEye1 (beforeEye f s) = emaEye1 s"
  "emaEye5 (beforeEye f s) = emaEye5 s"
  "yawnEma1 (beforeEye f s) = yawnEma1 s"
  "mouthOpen (beforeEye f s) = mouthOpen s"
  "baselineStats_mu (beforeEye f s) = baselineStats_mu s"
  "baselineStats_sigma (beforeEye f s) = baselineStats_sigma s"
  "normalizationEnabled (beforeEye f s) = normalizationEnabled s"
  by (simp_all add: beforeEye_def)

lemma tick_eye_fields:
  assumes "runningFlag s" "face f"
  shows "eyeClosedDebounced (tick m s f) = eyeClosedDebounced (eyePipeline f (beforeEye f s))"
    and "eyeRunLenFrames (tick m s f) = eyeRunLenFrames (eyePipeline f (beforeEye f s))"
    and "blinkPulse (tick m s f) = blinkPulse (eyePipeline f (beforeEye f s))"
    and "eyeRuns (tick m s f) = eyeRuns (eyePipeline f (beforeEye f s))"
    and "lastBlinkEndTime (tick m s f) = lastBlinkEndTime (eyePipeline f (beforeEye f s))"
    and "hasSeenBlink (tick m s f) = hasSeenBlink (eyePipeline f (beforeEye f s))"
    and "blinkState (tick m s f) = blinkState (eyePipeline f (beforeEye f s))"
    and "emaEye1 (tick m s f) = emaEye1 (eyePipeline f (beforeEye f s))"
    and "emaEye5 (tick m s f) = emaEye5 (eyePipeline f (beforeEye f s))"
  using assms by (simp_all add: tick_def onResults_def Let_def beforeEye_def)

lemma tick_mouth_fields:
  assumes "runningFlag s" "face f"
  shows "yawnEma1 (tick m s f) = yawnEma1 (mouthPipeline f (eyePipeline f (beforeEye f s)))"
    and "mouthOpen (tick m s f) = mouthOpen (mouthPipeline f (eyePipeline f (beforeEye f s)))"
  using assms by (simp_all add: tick_def onResults_def Let_def beforeEye_def)

lemma ticks_append: "ticks m s (xs @ ys) = ticks m (ticks m s xs) ys"
  by (simp add: ticks_def)

lemma ticks_runningFlag [simp]: "runningFlag (ticks m s fs) = runningFlag s"
  by (induction fs arbitrary: s) (simp_all add: ticks_def)

lemma startProcessing_core:
  "eyeCore (startProcessing True s) = (False, 0, 0, 0, False, - 1000000000, 0)"
  by (simp add: eyeCore_def startProcessing_def)

lemma deb_core: "eyeClosedDebounced s = fst (eyeCore s)"
  by (simp add: eyeCore_def)

subsection \<open>Eye debounce\<close>

text \<open>
  Claim C5. In a session (started by \<^verbatim>\<open>startProcessing\<close>, every frame with a face) the
  eye starts open and is still open after the first tick, whatever it is. Two consecutive
  raw-closed ticks always leave the eye debounced-closed, two consecutive raw-open ticks
  always leave it open, and a tick whose raw signal differs from the tick before changes
  nothing: a single closed tick followed by an open one never closes the eye, the
  transition to closed happens on the second consecutive closed tick, and leaving the
  closed state needs two consecutive open ticks.
\<close>

theorem C5_eye_debounce_two_ticks:
  assumes "\<forall>g \<in> set (fs @ [a, b]). face g"
  shows "let s0 = startProcessing True s;
             ca = eyeClosedRaw (unifiedEyeProb a);
             cb = eyeClosedRaw (unifiedEyeProb b)
         in \<not> eyeClosedDebounced s0 \<and> \<not> eyeClosedDebounced (ticks m s0 [a]) \<and>
            (ca \<and> cb \<longrightarrow> eyeClosedDebounced (ticks m s0 (fs @ [a, b]))) \<and>
            (\<not> ca \<and> \<not> cb \<longrightarrow> \<not> eyeClosedDebounced (ticks m s0 (fs @ [a, b]))) \<and>
            (ca \<noteq> cb \<longrightarrow>
               eyeClosedDebounced (ticks m s0 (fs @ [a, b])) =
               eyeClosedDebounced (ticks m s0 (fs @ [a])))"
proof -
  let ?init = "startProcessing True s"
  let ?t = "ticks m ?init fs"
  have run0: "runningFlag ?init" by (simp add: startProcessing_def)
  have fa: "face a" and fb: "face b" and ffs: "\<forall>g \<in> set fs. face g"
    using assms by simp_all
  have one: "eyeCore (ticks m ?init [a]) =
               eyeCoreStep (eyeClosedRaw (unifiedEyeProb a)) (False, 0, 0, 0, False, - 1000000000, 0)"
    using run0 fa by (simp add: ticks_def tick_core startProcessing_core)
  have ta: "eyeCore (ticks m ?init (fs @ [a])) =
              eyeCoreStep (eyeClosedRaw (unifiedEyeProb a)) (eyeCore ?t)"
    using run0 fa by (simp add: ticks_append ticks_def [of m _ "[a]"] tick_core)
  have tab: "eyeCore (ticks m ?init (fs @ [a, b])) =
               eyeCoreStep (eyeClosedRaw (unifiedEyeProb b))
                 (eyeCoreStep (eyeClosedRaw (unifiedEyeProb a)) (eyeCore ?t))"
    using run0 fa fb by (simp add: ticks_append ticks_def [of m _ "[a, b]"] tick_core)
  obtain deb on off run prol lastStart n where c: "eyeCore ?t = (deb, on, off, run, prol, lastStart, n)"
    by (cases "eyeCore ?t") auto
  show ?thesis
    unfolding Let_def deb_core one ta tab c startProcessing_core
    by (auto simp add: Let_def)
qed

theorem C5_eye_debounce_witness:
  "list_all face [plainFrame 0 (Fin 0.1), plainFrame (1 / 15) (Fin 0.1)] \<and>
   eyeClosedDebounced (ticks None (startProcessing True bootState)
      [plainFrame 0 (Fin 0.1), plainFrame (1 / 15) (Fin 0.1)]) \<and>
   \<not> eyeClosedDebounced (ticks None (startProcessing True bootState)
      [plainFrame 0 (Fin 0.1), plainFrame (1 / 15) (Fin 0.9)]) \<and>
   \<not> eyeClosedDebounced (ticks None (startProcessing True bootState)
      [plainFrame 0 (Fin 0.9), plainFrame (1 / 15) (Fin 0.9)])"
  using C5_eye_debounce_two_ticks [of "[]" "plainFrame 0 (Fin 0.1)" "plainFrame (1 / 15) (Fin 0.1)"
          bootState None]
        C5_eye_debounce_two_ticks [of "[]" "plainFrame 0 (Fin 0.1)" "plainFrame (1 / 15) (Fin 0.9)"
          bootState None]
        C5_eye_debounce_two_ticks [of "[]" "plainFrame 0 (Fin 0.9)" "plainFrame (1 / 15) (Fin 0.9)"
          bootState None]
  by (simp add: Let_def plainFrame_def eyeClosedRaw_def EYE_CLOSE_T_def)

subsection \<open>Blink classification\<close>

lemma last_dropWhile_snoc:
  "\<not> P x \<Longrightarrow> dropWhile P (xs @ [x]) \<noteq> [] \<and> last (dropWhile P (xs @ [x])) = x"
  by (induction xs) auto

lemma eyeDebounce_blink:
  "eyeRuns (eyeDebounce t c s) =
     (if \<not> c \<and> eyeClosedDebounced s \<and> 2 \<le> eyeDebOff s + 1
      then dropWhile (\<lambda>r. tEnd r < t - 30)
             (eyeRuns s @ [\<lparr>tEnd = t, lenFrames = eyeRunLenFrames s,
                            durS = real (eyeRunLenFrames s) * DT\<rparr>])
      else eyeRuns s)"
  "lastBlinkEndTime (eyeDebounce t c s) =
     (if \<not> c \<and> eyeClosedDebounced s \<and> 2 \<le> eyeDebOff s + 1
         \<and> 2 \<le> eyeRunLenFrames s \<and> eyeRunLenFrames s \<le> 6
      then t else lastBlinkEndTime s)"
  "hasSeenBlink (eyeDebounce t c s) =
     (if \<not> c \<and> eyeClosedDebounced s \<and> 2 \<le> eyeDebOff s + 1
         \<and> 2 \<le> eyeRunLenFrames s \<and> eyeRunLenFrames s \<le> 6
      then 1 else hasSeenBlink s)"
  "blinkPulse (eyeDebounce t c s) =
     (if \<not> c \<and> eyeClosedDebounced s \<and> 2 \<le> eyeDebOff s + 1
         \<and> 2 \<le> eyeRunLenFrames s \<and> eyeRunLenFrames s \<le> 6
      then 1 else blinkPulse s)"
  by (simp_all add: eyeDebounce_def Let_def EYE_DEBOUNCE_ON_F_def EYE_DEBOUNCE_OFF_F_def
        BLINK_MIN_F_def BLINK_MAX_F_def)

lemma blinkPulseStep_vars:
  "blinkPulse (blinkPulseStep s) = blinkPulse s - 1"
  "blinkState (blinkPulseStep s) = (blinkPulse s > 0 \<and> \<not> eyeClosedDebounced s)"
  by (simp_all add: blinkPulseStep_def Let_def)

lemma eyePipeline_blink:
  "eyeRuns (eyePipeline f s) = eyeRuns (eyeDebounce (nowSec f) (eyeClosedRaw (unifiedEyeProb f)) s')"
  "lastBlinkEndTime (eyePipeline f s) = lastBlinkEndTime (eyeDebounce (nowSec f) (eyeClosedRaw (unifiedEyeProb f)) s')"
  "hasSeenBlink (eyePipeline f s) = hasSeenBlink (eyeDebounce (nowSec f) (eyeClosedRaw (unifiedEyeProb f)) s')"
  "blinkPulse (eyePipeline f s) = blinkPulse (eyeDebounce (nowSec f) (eyeClosedRaw (unifiedEyeProb f)) s') - 1"
  "blinkState (eyePipeline f s) =
     (blinkPulse (eyeDebounce (nowSec f) (eyeClosedRaw (unifiedEyeProb f)) s') > 0 \<and>
      \<not> eyeClosedDebounced (eyeDebounce (nowSec f) (eyeClosedRaw (unifiedEyeProb f)) s'))"
  "eyeClosedDebounced (eyePipeline f s) = eyeClosedDebounced (eyeDebounce (nowSec f) (eyeClosedRaw (unifiedEyeProb f)) s')"
  if "s' = eyeEmaUpdate (unifiedEyeProb f)
             (s\<lparr>rbEyeClosed := Ring_push (num_of_bool (eyeClosedRaw (unifiedEyeProb f))) (rbEyeClosed s)\<rparr>)"
  unfolding that
  by (simp_all add: eyePipeline_def Let_def blinkPulseStep_vars)

lemma blinkPulse_tick:
  assumes "runningFlag s" "face f" "blinkPulse s = 0"
  shows "blinkPulse (tick m s f) = 0"
  using assms
  by (simp add: tick_eye_fields eyePipeline_blink [OF refl] eyeDebounce_blink)

lemma blinkPulse_ticks:
  "runningFlag s \<Longrightarrow> \<forall>g \<in> set fs. face g \<Longrightarrow> blinkPulse s = 0 \<Longrightarrow> blinkPulse (ticks m s fs) = 0"
proof (induction fs arbitrary: s)
  case Nil
  then show ?case by (simp add: ticks_def)
next
  case (Cons g fs)
  have "blinkPulse (ticks m (tick m s g) fs) = 0"
    using Cons.prems by (intro Cons.IH) (simp_all add: blinkPulse_tick)
  then show ?case by (simp add: ticks_def)
qed

text \<open>
  Claim C6. In a session, on the tick that completes a closure run (the eye was
  debounced-closed before the tick and is open after it), the run is recorded with the
  current time and the run length counted so far, and it is classified a blink exactly
  when that length is between 2 and 6: then the blink state is shown on this tick, the
  time of the last blink is the current time and \<^verbatim>\<open>hasSeenBlink\<close> is 1; otherwise none
  of them changes and no blink is shown. On a tick that completes no run nothing is
  recorded and no blink is shown. The pulse counter is back at 0 after every tick, so the
  blink state lasts one tick.
\<close>

theorem C6_blink_iff_run_length_2_to_6:
  assumes "\<forall>g \<in> set fs. face g" and "face f"
  shows "let s = ticks m (startProcessing True s0) fs;
             s' = tick m s f;
             lenF = eyeRunLenFrames s;
             isBlink = (2 \<le> lenF \<and> lenF \<le> 6)
         in (eyeClosedDebounced s \<and> \<not> eyeClosedDebounced s' \<longrightarrow>
               eyeRuns s' \<noteq> [] \<and>
               last (eyeRuns s') = \<lparr>tEnd = nowSec f, lenFrames = lenF, durS = real lenF * DT\<rparr> \<and>
               blinkState s' = isBlink \<and>
               lastBlinkEndTime s' = (if isBlink then nowSec f else lastBlinkEndTime s) \<and>
               hasSeenBlink s' = (if isBlink then 1 else hasSeenBlink s)) \<and>
            (\<not> (eyeClosedDebounced s \<and> \<not> eyeClosedDebounced s') \<longrightarrow>
               eyeRuns s' = eyeRuns s \<and> \<not> blinkState s' \<and>
               lastBlinkEndTime s' = lastBlinkEndTime s \<and> hasSeenBlink s' = hasSeenBlink s) \<and>
            blinkPulse s' = 0"
proof -
  let ?s = "ticks m (startProcessing True s0) fs"
  have run: "runningFlag ?s" by (simp add: startProcessing_def)
  have bp: "blinkPulse ?s = 0"
    using assms(1) by (intro blinkPulse_ticks) (simp_all add: startProcessing_def)
  have nd: "\<not> nowSec f < nowSec f - 30" by simp
  note ld = last_dropWhile_snoc [of "\<lambda>r. tEnd r < nowSec f - 30", simplified]
  show ?thesis
    unfolding Let_def
    using run assms(2) bp
    by (auto simp add: tick_eye_fields eyePipeline_blink [OF refl] eyeDebounce_blink
          eyeDebounce_counters ld)
qed

lemma core104:
  "foldl (\<lambda>c i. eyeCoreStep (lockoutClosed i) c) (False, 0, 0, 0, False, - 1000000000, 0) [0..<104]
     = (True, 0, 1, 13, True, 90, 90)"
  by code_simp

theorem C6_blink_witness:
  "(let fs = [plainFrame 0 (Fin 0.1), plainFrame (1 / 15) (Fin 0.1), plainFrame (2 / 15) (Fin 0.1),
              plainFrame (1 / 5) (Fin 0.9)];
        f = plainFrame (4 / 15) (Fin 0.9);
        s = ticks None (startProcessing True bootState) fs;
        s' = tick None s f
    in list_all face fs \<and> face f \<and> eyeClosedDebounced s \<and> \<not> eyeClosedDebounced s' \<and>
       eyeRunLenFrames s = 3 \<and> blinkState s' \<and> lastBlinkEndTime s' = 4 / 15 \<and> hasSeenBlink s' = 1) \<and>
   (let fs = lockoutTrace 104;
        f = plainFrame (104 / 15) (Fin 0.9);
        s = ticks None (startProcessing True bootState) fs;
        s' = tick None s f
    in list_all face fs \<and> face f \<and> eyeClosedDebounced s \<and> \<not> eyeClosedDebounced s' \<and>
       eyeRunLenFrames s = 13 \<and> \<not> blinkState s' \<and> lastBlinkEndTime s' = lastBlinkEndTime s)"
proof -
  let ?init = "startProcessing True bootState"
  let ?fs = "[plainFrame 0 (Fin 0.1), plainFrame (1 / 15) (Fin 0.1), plainFrame (2 / 15) (Fin 0.1),
              plainFrame (1 / 5) (Fin 0.9)]"
  let ?f = "plainFrame (4 / 15) (Fin 0.9)"
  let ?g = "plainFrame (104 / 15) (Fin 0.9)"
  have cl: "eyeClosedRaw (Fin 0.1)" "\<not> eyeClosedRaw (Fin 0.9)"
    by (simp_all add: eyeClosedRaw_def EYE_CLOSE_T_def)
  have faces: "\<forall>g \<in> set ?fs. face g" "face ?f" "face ?g" "\<forall>g \<in> set (lockoutTrace 104). face g"
    by (simp_all add: plainFrame_def lockoutTrace_def)
  have run: "runningFlag ?init" by (simp add: startProcessing_def)
  have a: "eyeCore (ticks None ?init ?fs) = (True, 0, 1, 3, False, - 1000000000, 4)"
    using ticks_core [OF run faces(1), of None]
    by (simp add: startProcessing_core plainFrame_def cl Let_def)
  have a': "eyeCore (tick None (ticks None ?init ?fs) ?f) = (False, 0, 2, 0, False, - 1000000000, 5)"
  proof -
    have "eyeCore (tick None (ticks None ?init ?fs) ?f) =
            eyeCoreStep (eyeClosedRaw (unifiedEyeProb ?f)) (eyeCore (ticks None ?init ?fs))"
      using run faces(2) by (intro tick_core) simp_all
    then show ?thesis unfolding a by (simp add: plainFrame_def cl Let_def)
  qed
  have b: "eyeCore (ticks None ?init (lockoutTrace 104)) = (True, 0, 1, 13, True, 90, 90)"
    unfolding lockoutTrace_core by (rule core104)
  have b': "eyeCore (tick None (ticks None ?init (lockoutTrace 104)) ?g) = (False, 0, 2, 0, False, 90, 90)"
  proof -
    have "eyeCore (tick None (ticks None ?init (lockoutTrace 104)) ?g) =
            eyeCoreStep (eyeClosedRaw (unifiedEyeProb ?g)) (eyeCore (ticks None ?init (lockoutTrace 104)))"
      using run faces(3) by (intro tick_core) simp_all
    then show ?thesis unfolding b by (simp add: plainFrame_def cl Let_def)
  qed
  have now: "nowSec ?f = 4 / 15" by (simp add: plainFrame_def)
  show ?thesis
    using C6_blink_iff_run_length_2_to_6 [OF faces(1) faces(2), of None bootState]
          C6_blink_iff_run_length_2_to_6 [OF faces(4) faces(3), of None bootState]
          a a' b b' faces now
    by (simp add: Let_def eyeCore_def list_all_iff)
qed

subsection \<open>Cold start of the moving averages\<close>

lemma eyeEmaUpdate_cold:
  "\<not> isFinite (emaEye1 s) \<Longrightarrow>
     emaEye1 (eyeEmaUpdate p s) = (if isFinite p then p else Fin 1) \<and>
     emaEye5 (eyeEmaUpdate p s) = (if isFinite p then p else Fin 1)"
  by (simp add: eyeEmaUpdate_def Let_def)

lemma eyePipeline_ema:
  "emaEye1 (eyePipeline f s) = emaEye1 (eyeEmaUpdate (unifiedEyeProb f)
     (s\<lparr>rbEyeClosed := Ring_push (num_of_bool (eyeClosedRaw (unifiedEyeProb f))) (rbEyeClosed s)\<rparr>))"
  "emaEye5 (eyePipeline f s) = emaEye5 (eyeEmaUpdate (unifiedEyeProb f)
     (s\<lparr>rbEyeClosed := Ring_push (num_of_bool (eyeClosedRaw (unifiedEyeProb f))) (rbEyeClosed s)\<rparr>))"
  by (simp_all add: eyePipeline_def Let_def)

lemma yawnEmaUpdate_cold:
  "\<not> isFinite (yawnEma1 s) \<Longrightarrow>
     yawnEma1 (yawnEmaUpdate p s) = (if isFinite p then p else Fin 0)"
  by (simp add: yawnEmaUpdate_def)

lemma mouthPipeline_vars:
  "yawnEma1 (mouthPipeline f s) = yawnEma1 (yawnEmaUpdate (yawnProb f) s)"
  "mouthOpen (mouthPipeline f s) =
     (if mouthOpen s then \<not> js_le (yawnEma1 (yawnEmaUpdate (yawnProb f) s)) (Fin MOUTH_OFF_T)
      else js_ge (yawnEma1 (yawnEmaUpdate (yawnProb f) s)) (Fin MOUTH_ON_T))"
  by (simp_all add: mouthPipeline_def mouthHysteresis_def Let_def)

text \<open>
  Claim C10. After \<^verbatim>\<open>startProcessing\<close> the three moving averages are \<^verbatim>\<open>NaN\<close>. On the
  first tick, and on any tick that finds the eye averages not finite, a non-finite
  eye-openness probability sets both eye averages to 1.0; a non-finite yawn probability
  on a tick that finds the yawn average not finite sets it to 0.
\<close>

theorem C10_cold_start_ema_defaults:
  assumes "face f"
  shows "(let s = startProcessing True s0; s' = tick m s f
          in emaEye1 s = NaN \<and> emaEye5 s = NaN \<and> yawnEma1 s = NaN \<and>
             (\<not> isFinite (unifiedEyeProb f) \<longrightarrow> emaEye1 s' = Fin 1 \<and> emaEye5 s' = Fin 1) \<and>
             (\<not> isFinite (yawnProb f) \<longrightarrow> yawnEma1 s' = Fin 0)) \<and>
         (runningFlag s \<and> \<not> isFinite (emaEye1 s) \<and> \<not> isFinite (unifiedEyeProb f) \<longrightarrow>
             emaEye1 (tick m s f) = Fin 1 \<and> emaEye5 (tick m s f) = Fin 1) \<and>
         (runningFlag s \<and> \<not> isFinite (yawnEma1 s) \<and> \<not> isFinite (yawnProb f) \<longrightarrow>
             yawnEma1 (tick m s f) = Fin 0)"
proof -
  have eye: "emaEye1 (tick m s f) = Fin 1 \<and> emaEye5 (tick m s f) = Fin 1"
    if "runningFlag s" "\<not> isFinite (emaEye1 s)" "\<not> isFinite (unifiedEyeProb f)" for s
    using that assms by (simp add: tick_eye_fields eyePipeline_ema eyeEmaUpdate_cold)
  have yawn: "yawnEma1 (tick m s f) = Fin 0"
    if "runningFlag s" "\<not> isFinite (yawnEma1 s)" "\<not> isFinite (yawnProb f)" for s
    using that assms by (simp add: tick_mouth_fields mouthPipeline_vars yawnEmaUpdate_cold)
  have start: "runningFlag (startProcessing True s0)" "emaEye1 (startProcessing True s0) = NaN"
    "emaEye5 (startProcessing True s0) = NaN" "yawnEma1 (startProcessing True s0) = NaN"
    by (simp_all add: startProcessing_def)
  show ?thesis
    unfolding Let_def using eye [of s] yawn [of s] eye [of "startProcessing True s0"]
      yawn [of "startProcessing True s0"] start
    by simp
qed

theorem C10_cold_start_witness:
  "face ((plainFrame 0 NaN)\<lparr>yawnProb := NaN\<rparr>) \<and>
   \<not> isFinite (unifiedEyeProb ((plainFrame 0 NaN)\<lparr>yawnProb := NaN\<rparr>)) \<and>
   \<not> isFinite (yawnProb ((plainFrame 0 NaN)\<lparr>yawnProb := NaN\<rparr>)) \<and>
   emaEye1 (tick None (startProcessing True bootState) ((plainFrame 0 NaN)\<lparr>yawnProb := NaN\<rparr>)) = Fin 1 \<and>
   emaEye5 (tick None (startProcessing True bootState) ((plainFrame 0 NaN)\<lparr>yawnProb := NaN\<rparr>)) = Fin 1 \<and>
   yawnEma1 (tick None (startProcessing True bootState) ((plainFrame 0 NaN)\<lparr>yawnProb := NaN\<rparr>)) = Fin 0"
  using C10_cold_start_ema_defaults [of "(plainFrame 0 NaN)\<lparr>yawnProb := NaN\<rparr>" bootState None
          "startProcessing True bootState"]
  by (simp add: Let_def plainFrame_def)

subsection \<open>Mouth hysteresis\<close>

lemma mouth_step:
  assumes "runningFlag s" "face f"
  shows "mouthOpen (tick m s f) =
           (if mouthOpen s then \<not> js_le (yawnEma1 (tick m s f)) (Fin MOUTH_OFF_T)
            else js_ge (yawnEma1 (tick m s f)) (Fin MOUTH_ON_T))"
  using assms by (simp add: tick_mouth_fields mouthPipeline_vars)

lemma inDeadBand_no_cross:
  "inDeadBand e \<Longrightarrow> \<not> js_le e (Fin MOUTH_OFF_T) \<and> \<not> js_ge e (Fin MOUTH_ON_T)"
  by (cases e) (simp_all add: inDeadBand_def js_ge_def MOUTH_OFF_T_def MOUTH_ON_T_def)

lemma mouth_band_ticks:
  assumes "runningFlag s" "\<forall>g \<in> set fs. face g"
    and "\<forall>k. 0 < k \<and> k \<le> length fs \<longrightarrow> inDeadBand (yawnEma1 (ticks m s (take k fs)))"
  shows "mouthOpen (ticks m s fs) = mouthOpen s"
  using assms(2,3)
proof (induction fs rule: rev_induct)
  case Nil
  then show ?case by (simp add: ticks_def)
next
  case (snoc g fs)
  have band: "inDeadBand (yawnEma1 (ticks m s (take k fs)))" if "0 < k" "k \<le> length fs" for k
    using snoc.prems(2) [rule_format, of k] that by simp
  have ih: "mouthOpen (ticks m s fs) = mouthOpen s"
    using snoc.prems(1) band by (intro snoc.IH) simp_all
  have last: "inDeadBand (yawnEma1 (ticks m s (fs @ [g])))"
    using snoc.prems(2) [rule_format, of "Suc (length fs)"] by simp
  have step: "ticks m s (fs @ [g]) = tick m (ticks m s fs) g"
    by (simp add: ticks_def)
  have "mouthOpen (tick m (ticks m s fs) g) = mouthOpen (ticks m s fs)"
    using mouth_step [of "ticks m s fs" g m] assms(1) snoc.prems(1)
      inDeadBand_no_cross [OF last [unfolded step]]
    by simp
  then show ?case using ih step by simp
qed

text \<open>
  Claim C7. While the yawn average after each tick lies strictly between 0.45 and 0.55
  (as when it oscillates between 0.46 and 0.54), the mouth state never changes. On every
  tick a closed mouth opens exactly when the average is at least 0.55, and an open mouth
  closes exactly when the average is at most 0.45.
\<close>

theorem C7_mouth_hysteresis_dead_band:
  assumes "runningFlag s" and "\<forall>g \<in> set fs. face g" and "face f"
  shows "((\<forall>k. 0 < k \<and> k \<le> length fs \<longrightarrow> inDeadBand (yawnEma1 (ticks m s (take k fs)))) \<longrightarrow>
            (\<forall>k \<le> length fs. mouthOpen (ticks m s (take k fs)) = mouthOpen s)) \<and>
         (\<not> mouthOpen s \<longrightarrow>
            (mouthOpen (tick m s f) \<longleftrightarrow> js_ge (yawnEma1 (tick m s f)) (Fin 0.55))) \<and>
         (mouthOpen s \<longrightarrow>
            (\<not> mouthOpen (tick m s f) \<longleftrightarrow> js_le (yawnEma1 (tick m s f)) (Fin 0.45)))"
proof -
  have trace: "mouthOpen (ticks m s (take k fs)) = mouthOpen s"
    if band: "\<forall>k. 0 < k \<and> k \<le> length fs \<longrightarrow> inDeadBand (yawnEma1 (ticks m s (take k fs)))"
      and k: "k \<le> length fs" for k
  proof (rule mouth_band_ticks [OF assms(1)])
    show "\<forall>g \<in> set (take k fs). face g"
      using assms(2) by (meson in_set_takeD)
    show "\<forall>j. 0 < j \<and> j \<le> length (take k fs) \<longrightarrow>
              inDeadBand (yawnEma1 (ticks m s (take j (take k fs))))"
      using band k by (simp add: min_absorb1)
  qed
  show ?thesis
    using trace mouth_step [OF assms(1) assms(3), of m]
    by (auto simp add: MOUTH_ON_T_def MOUTH_OFF_T_def)
qed

lemma yawn_first_tick:
  "yawnEma1 (tick m (startProcessing True bootState) (yawnFrame t (Fin y))) = Fin y"
  by (simp add: tick_mouth_fields mouthPipeline_vars yawnEmaUpdate_cold startProcessing_def
        yawnFrame_def plainFrame_def)

lemma yawn_second_tick_same:
  "yawnEma1 (tick m (tick m (startProcessing True bootState) (yawnFrame t (Fin y)))
       (yawnFrame u (Fin y))) = Fin y"
proof -
  let ?s1 = "tick m (startProcessing True bootState) (yawnFrame t (Fin y))"
  have run: "runningFlag ?s1" by (simp add: startProcessing_def)
  have f: "face (yawnFrame u (Fin y))" by (simp add: yawnFrame_def plainFrame_def)
  show ?thesis
    using run f yawn_first_tick [of m t y]
    by (simp add: tick_mouth_fields mouthPipeline_vars yawnEmaUpdate_def Let_def js_sub_def)
       (simp add: yawnFrame_def plainFrame_def js_sub_def)
qed

theorem C7_mouth_hysteresis_witness:
  "(let s = startProcessing True bootState;
        fs = [yawnFrame 0 (Fin 0.5), yawnFrame (1 / 15) (Fin 0.5)]
    in runningFlag s \<and> list_all face fs \<and>
       inDeadBand (yawnEma1 (ticks None s (take 1 fs))) \<and>
       inDeadBand (yawnEma1 (ticks None s (take 2 fs))) \<and>
       mouthOpen (ticks None s fs) = mouthOpen s) \<and>
   (let s = startProcessing True bootState; f = yawnFrame 0 (Fin 0.6)
    in face f \<and> \<not> mouthOpen s \<and> js_ge (yawnEma1 (tick None s f)) (Fin 0.55) \<and>
       mouthOpen (tick None s f)) \<and>
   (let s = tick None (startProcessing True bootState) (yawnFrame 0 (Fin 0.6));
        f = yawnFrame (1 / 15) (Fin 0.6)
    in runningFlag s \<and> face f \<and> mouthOpen s \<and>
       \<not> js_le (yawnEma1 (tick None s f)) (Fin 0.45) \<and> mouthOpen (tick None s f))"
proof -
  let ?s = "startProcessing True bootState"
  let ?fs = "[yawnFrame 0 (Fin 0.5), yawnFrame (1 / 15) (Fin 0.5)]"
  have run: "runningFlag ?s" and shut: "\<not> mouthOpen ?s" by (simp_all add: startProcessing_def)
  have faces: "\<forall>g \<in> set ?fs. face g" "face (yawnFrame 0 (Fin 0.6))"
    by (simp_all add: yawnFrame_def plainFrame_def)
  have band: "\<forall>k. 0 < k \<and> k \<le> length ?fs \<longrightarrow> inDeadBand (yawnEma1 (ticks None ?s (take k ?fs)))"
  proof (intro allI impI)
    fix k :: nat assume "0 < k \<and> k \<le> length ?fs"
    then have "k = 1 \<or> k = 2" by auto
    then show "inDeadBand (yawnEma1 (ticks None ?s (take k ?fs)))"
      using yawn_first_tick [of None 0 "0.5"] yawn_second_tick_same [of None 0 "0.5" "1 / 15"]
      by (auto simp add: ticks_def inDeadBand_def)
  qed
  have opens: "js_ge (yawnEma1 (tick None ?s (yawnFrame 0 (Fin 0.6)))) (Fin 0.55)"
    using yawn_first_tick [of None 0 "0.6"] by (simp add: js_ge_def)
  note c7 = C7_mouth_hysteresis_dead_band [OF run faces(1) faces(2), of None]
  from c7 band have "\<forall>k \<le> length ?fs. mouthOpen (ticks None ?s (take k ?fs)) = mouthOpen ?s"
    by blast
  from this [rule_format, of "length ?fs"]
  have keep: "mouthOpen (ticks None ?s ?fs) = mouthOpen ?s" by simp
  from c7 shut opens have op: "mouthOpen (tick None ?s (yawnFrame 0 (Fin 0.6)))"
    by blast
  have b1: "inDeadBand (yawnEma1 (ticks None ?s (take 1 ?fs)))"
    using band [rule_format, of 1] by simp
  have b2: "inDeadBand (yawnEma1 (ticks None ?s (take 2 ?fs)))"
    using band [rule_format, of 2] by simp
  have fl: "list_all face ?fs" using faces(1) by (simp add: list_all_iff)
  let ?s1 = "tick None ?s (yawnFrame 0 (Fin 0.6))"
  let ?f2 = "yawnFrame (1 / 15) (Fin 0.6)"
  have run1: "runningFlag ?s1" using run by simp
  have face2: "face ?f2" by (simp add: yawnFrame_def plainFrame_def)
  have high: "\<not> js_le (yawnEma1 (tick None ?s1 ?f2)) (Fin 0.45)"
    using yawn_second_tick_same [of None 0 "0.6" "1 / 15"] by simp
  from C7_mouth_hysteresis_dead_band [OF run1 faces(1) face2, of None] op high
  have stays: "mouthOpen (tick None ?s1 ?f2)" by blast
  show ?thesis
    unfolding Let_def
    using keep op b1 b2 opens run shut faces(2) fl run1 face2 high stays by blast
qed


subsection \<open>The callback by stages\<close>

lemma onResults_stages:
  "runningFlag s \<Longrightarrow> face f \<Longrightarrow> onResults m f s = tcnPredictIfReady m (beforeTcn f s)"
  by (simp add: onResults_def beforeTcn_def beforePush_def tickRaw_def afterNod_def beforeEye_def
        Let_def)

lemma afterNod_frame [simp]:
  "featBuf (afterNod f s) = featBuf s"
  "baselineStats_mu (afterNod f s) = baselineStats_mu s"
  "baselineStats_sigma (afterNod f s) = baselineStats_sigma s"
  "normalizationEnabled (afterNod f s) = normalizationEnabled s"
  by (simp_all add: afterNod_def)

text \<open>
  The callback clears \<^verbatim>\<open>normMode\<close> before it calls \<^verbatim>\<open>finalizeNorm\<close>, whose first
  statement returns when \<^verbatim>\<open>normMode\<close> is false: the statistics are never stored.
\<close>

lemma normCollect_stats [simp]:
  "baselineStats_mu (normCollect t raw s) = baselineStats_mu s"
  "baselineStats_sigma (normCollect t raw s) = baselineStats_sigma s"
  by (simp_all add: normCollect_def finalizeNorm_def addNormSample_def Let_def)

lemma beforePush_frame [simp]:
  "featBuf (beforePush f s) = featBuf s"
  "baselineStats_mu (beforePush f s) = baselineStats_mu s"
  "baselineStats_sigma (beforePush f s) = baselineStats_sigma s"
  "normalizationEnabled (beforePush f s) = normalizationEnabled s"
  by (simp_all add: beforePush_def)

lemma beforeTcn_featBuf:
  "featBuf (beforeTcn f s) =
     (if length (featBuf s) < 90 then featBuf s @ [normRow (beforePush f s) (tickRaw f s)]
      else tl (featBuf s @ [normRow (beforePush f s) (tickRaw f s)]))"
  by (simp add: beforeTcn_def pushFrameFeatures_def Let_def TCN_WINDOW_def)

lemma beforeTcn_frame [simp]:
  "baselineStats_mu (beforeTcn f s) = baselineStats_mu s"
  "baselineStats_sigma (beforeTcn f s) = baselineStats_sigma s"
  "normalizationEnabled (beforeTcn f s) = normalizationEnabled s"
  by (simp_all add: beforeTcn_def)

lemma tick_featBuf:
  assumes "runningFlag s" "face f"
  shows "featBuf (tick m s f) =
     (if length (featBuf s) < 90 then featBuf s @ [normRow (beforePush f s) (tickRaw f s)]
      else tl (featBuf s @ [normRow (beforePush f s) (tickRaw f s)]))"
  using assms by (simp add: tick_def onResults_stages beforeTcn_featBuf)

lemma tick_stats [simp]:
  "baselineStats_mu (tick m s f) = baselineStats_mu s"
  "baselineStats_sigma (tick m s f) = baselineStats_sigma s"
  "normalizationEnabled (tick m s f) = normalizationEnabled s"
  by (cases "runningFlag s \<and> face f"; simp add: tick_def onResults_stages; simp add: onResults_def)+

lemma featBuf_len_tick:
  "length (featBuf s) \<le> 90 \<Longrightarrow> length (featBuf (tick m s f)) \<le> 90"
  by (cases "runningFlag s \<and> face f") (auto simp add: tick_featBuf tick_skip)

lemma featBuf_len_ticks:
  "length (featBuf s) \<le> 90 \<Longrightarrow> length (featBuf (ticks m s fs)) \<le> 90"
proof (induction fs arbitrary: s)
  case Nil
  then show ?case by (simp add: ticks_def)
next
  case (Cons g fs)
  have "length (featBuf (ticks m (tick m s g) fs)) \<le> 90"
    using Cons.prems by (intro Cons.IH featBuf_len_tick)
  then show ?case by (simp add: ticks_def)
qed

lemma tcnPredictIfReady_call:
  "snd (tcnPredictIfReady m s) =
     (if m \<noteq> None \<and> \<not> length (featBuf s) < 90 then Some (take 90 (featBuf s)) else None)"
  by (simp add: tcnPredictIfReady_def Let_def TCN_WINDOW_def split: option.splits)

lemma tcnPredictIfReady_text:
  "m \<noteq> None \<Longrightarrow> length (featBuf s) < 90 \<Longrightarrow>
   tcnText (fst (tcnPredictIfReady m s)) =
     (if baselineStats_mu s = None \<and> normalizationEnabled s then AwaitingNorm
      else Warming (length (featBuf s)) 90)"
  by (auto simp add: tcnPredictIfReady_def TCN_WINDOW_def split: option.splits)

subsection \<open>Temporal window\<close>

text \<open>
  Claim C8, as amended. In a session the buffer never holds more than 90 rows; a push
  appends the new row and, when 90 rows were there, drops the oldest one and no other;
  the classifier is called exactly on the ticks that leave 90 rows in the buffer (with a
  model loaded), on the whole buffer. Below 90 rows it is not called and the status is
  the warming-up count, except that it reads "Awaiting" while normalisation is enabled and
  no statistics are stored; without a model the status says that the model is not loaded.
\<close>

theorem C8_temporal_window_fifo:
  assumes "\<forall>g \<in> set fs. face g" and "face f"
  shows "let s = ticks m (startProcessing True s0) fs;
             s' = tick m s f;
             called = snd (onResults m f s)
         in length (featBuf s) \<le> 90 \<and> length (featBuf s') \<le> 90 \<and>
            featBuf s' =
              (if length (featBuf s) < 90 then featBuf s else tl (featBuf s)) @ [last (featBuf s')] \<and>
            (called \<noteq> None \<longleftrightarrow> m \<noteq> None \<and> length (featBuf s') = 90) \<and>
            (called \<noteq> None \<longrightarrow> called = Some (featBuf s')) \<and>
            (m \<noteq> None \<and> length (featBuf s') < 90 \<longrightarrow>
               tcnText s' =
                 (if baselineStats_mu s' = None \<and> normalizationEnabled s' then AwaitingNorm
                  else Warming (length (featBuf s')) 90)) \<and>
            (m = None \<longrightarrow> tcnText s' = TcnNotLoaded)"
proof -
  let ?s = "ticks m (startProcessing True s0) fs"
  let ?b = "beforeTcn f ?s"
  have run: "runningFlag ?s" by (simp add: startProcessing_def)
  have len: "length (featBuf ?s) \<le> 90"
    by (rule featBuf_len_ticks) (simp add: startProcessing_def)
  have len': "length (featBuf (tick m ?s f)) \<le> 90"
    using len by (rule featBuf_len_tick)
  have fb: "featBuf (tick m ?s f) = featBuf ?b"
    using run assms(2) by (simp add: tick_def onResults_stages)
  have fifo: "featBuf (tick m ?s f) =
      (if length (featBuf ?s) < 90 then featBuf ?s else tl (featBuf ?s)) @ [last (featBuf (tick m ?s f))]"
    using len by (cases "featBuf ?s") (auto simp add: tick_featBuf [OF run assms(2)])
  have call: "snd (onResults m f ?s) =
      (if m \<noteq> None \<and> \<not> length (featBuf (tick m ?s f)) < 90
       then Some (take 90 (featBuf (tick m ?s f))) else None)"
    using run assms(2) by (simp add: onResults_stages tcnPredictIfReady_call fb)
  have status: "tcnText (tick m ?s f) =
      (if baselineStats_mu (tick m ?s f) = None \<and> normalizationEnabled (tick m ?s f) then AwaitingNorm
       else Warming (length (featBuf (tick m ?s f))) 90)"
    if "m \<noteq> None" "length (featBuf (tick m ?s f)) < 90"
    using that run assms(2) tcnPredictIfReady_text [of m ?b]
    by (simp add: fb) (simp add: tick_def onResults_stages)
  have unloaded: "tcnText (tick m ?s f) = TcnNotLoaded" if "m = None"
    using that run assms(2) by (simp add: tick_def onResults_stages tcnPredictIfReady_def)
  show ?thesis
    unfolding Let_def using len len' fifo call status unloaded by auto
qed

lemma core90:
  "foldl (\<lambda>c i. eyeCoreStep (lockoutClosed i) c) (False, 0, 0, 0, False, - 1000000000, 0) [0..<90]
     = (False, 0, 90, 0, False, - 1000000000, 90)"
  by code_simp

theorem C8_temporal_window_witness:
  "(let s = startProcessing True bootState;
        f = plainFrame 0 (Fin 0.9);
        s' = tick (Some constModel) s f
    in face f \<and> length (featBuf s') = 1 \<and> snd (onResults (Some constModel) f s) = None \<and>
       tcnText s' = Warming 1 90) \<and>
   (let s = ticks (Some constModel) (startProcessing True bootState) (lockoutTrace 90);
        f = plainFrame 6 (Fin 0.9);
        s' = tick (Some constModel) s f
    in list_all face (lockoutTrace 90) \<and> face f \<and> length (featBuf s) = 90 \<and>
       length (featBuf s') = 90 \<and> featBuf s' = tl (featBuf s) @ [last (featBuf s')] \<and>
       snd (onResults (Some constModel) f s) = Some (featBuf s'))"
proof -
  let ?init = "startProcessing True bootState"
  let ?m = "Some constModel"
  let ?f = "plainFrame 0 (Fin 0.9)"
  let ?g = "plainFrame 6 (Fin 0.9)"
  let ?t = "ticks ?m ?init (lockoutTrace 90)"
  have faces: "\<forall>g \<in> set []. face g" "face ?f" "\<forall>g \<in> set (lockoutTrace 90). face g" "face ?g"
    by (simp_all add: plainFrame_def lockoutTrace_def)
  have init: "featBuf ?init = []" "\<not> normalizationEnabled ?init"
    by (simp_all add: startProcessing_def bootState_def)
  have full: "length (featBuf ?t) = 90"
    using lockoutTrace_core [of ?m 90] by (simp add: core90 eyeCore_def)
  note first = C8_temporal_window_fifo [OF faces(1) faces(2), of ?m bootState, unfolded Let_def]
  note later = C8_temporal_window_fifo [OF faces(3) faces(4), of ?m bootState, unfolded Let_def]
  have a: "length (featBuf (tick ?m ?init ?f)) = 1"
    using first init by (simp add: ticks_def) (metis length_Cons list.size(3) One_nat_def)
  have b: "snd (onResults ?m ?f ?init) = None" "tcnText (tick ?m ?init ?f) = Warming 1 90"
    using first init a by (simp_all add: ticks_def)
  have c: "featBuf (tick ?m ?t ?g) = tl (featBuf ?t) @ [last (featBuf (tick ?m ?t ?g))]"
    using later full by simp
  have d: "length (featBuf (tick ?m ?t ?g)) = 90"
    using arg_cong [OF c, of length] full by simp
  have e: "snd (onResults ?m ?g ?t) = Some (featBuf (tick ?m ?t ?g))"
    using later d by simp
  show ?thesis
    unfolding Let_def using a b c d e full faces(2,4) faces(3) [folded list_all_iff] by simp
qed

text \<open>
  The claim as stated fails on the status: with normalisation enabled and no statistics,
  the first tick of a session leaves one row in the buffer and the status is not the
  warming-up count.
\<close>

theorem C8_status_counterexample:
  "length (featBuf (tick (Some constModel)
       (startProcessing True (setNormalizationEnabled True bootState)) (plainFrame 0 (Fin 0.9)))) = 1 \<and>
   tcnText (tick (Some constModel)
       (startProcessing True (setNormalizationEnabled True bootState)) (plainFrame 0 (Fin 0.9)))
     = AwaitingNorm"
proof -
  let ?s = "startProcessing True (setNormalizationEnabled True bootState)"
  let ?f = "plainFrame 0 (Fin 0.9)"
  have run: "runningFlag ?s" and face: "face ?f" and empty: "featBuf ?s = []"
    and stats: "baselineStats_mu ?s = None" and en: "normalizationEnabled ?s"
    by (simp_all add: startProcessing_def setNormalizationEnabled_def bootState_def plainFrame_def)
  have len: "length (featBuf (tick (Some constModel) ?s ?f)) = 1"
    by (simp add: tick_featBuf [OF run face] empty)
  have "tcnText (tick (Some constModel) ?s ?f) =
          tcnText (fst (tcnPredictIfReady (Some constModel) (beforeTcn ?f ?s)))"
    using run face by (simp add: tick_def onResults_stages)
  also have "\<dots> = AwaitingNorm"
    using stats en empty
    by (subst tcnPredictIfReady_text) (simp_all add: beforeTcn_featBuf)
  finally show ?thesis using len by simp
qed

subsection \<open>Normalisation statistics\<close>

lemma baselineSnapshot_norm:
  "normCore (baselineSnapshot f s) =
     (case normCore s of (captured, enabled, mode, t0, cnt) \<Rightarrow>
        (True, enabled, if captured then mode else enabled,
         if \<not> captured \<and> enabled then resetNowSec f else t0,
         if \<not> captured \<and> enabled then 0 else cnt))"
  by (simp add: normCore_def baselineSnapshot_def resetNorm_def Let_def)

lemma normCollect_norm:
  "normCore (normCollect t raw s) =
     (case normCore s of (captured, enabled, mode, t0, cnt) \<Rightarrow>
        (captured, enabled, mode \<and> \<not> t - t0 \<ge> 10, t0, if mode then cnt + 1 else cnt))"
  by (simp add: normCore_def normCollect_def finalizeNorm_def addNormSample_def Let_def
        NORM_SECONDS_def)

lemma normCore_frames [simp]:
  "normCore (snd (getSmoothDelta a v s)) = normCore s"
  "normCore (eyePipeline f s) = normCore s"
  "normCore (mouthPipeline f s) = normCore s"
  "normCore (nodRule f s) = normCore s"
  "normCore (pushFrameFeatures raw s) = normCore s"
  "normCore (fst (tcnPredictIfReady m s)) = normCore s"
  by (simp_all add: normCore_def)

lemma tick_norm:
  assumes "runningFlag s" "face f"
  shows "normCore (tick m s f) = normCoreStep (resetNowSec f) (collectNowSec f) (normCore s)"
  using assms 
  apply (simp add: tick_def onResults_stages beforeTcn_def beforePush_def afterNod_def beforeEye_def normCollect_norm baselineSnapshot_norm)
  apply (cases "normCore s")
  apply (simp add: Let_def)
  done

lemma n151:
  "foldl (\<lambda>c i. normCoreStep (real i / 15) (real i / 15) c) (False, True, False, 0, 0) [0..<151]
     = (True, True, False, 0, 151)"
  by code_simp

lemma n150:
  "foldl (\<lambda>c i. normCoreStep (real i / 15) (real i / 15) c) (False, True, False, 0, 0) [0..<150]
     = (True, True, True, 0, 150)"
  by code_simp

lemma ticks_norm:
  "runningFlag s \<Longrightarrow> \<forall>f \<in> set fs. face f \<Longrightarrow>
   normCore (ticks m s fs) =
     foldl (\<lambda>c f. normCoreStep (resetNowSec f) (collectNowSec f) c) (normCore s) fs"
proof (induction fs arbitrary: s)
  case Nil
  then show ?case by (simp add: ticks_def)
next
  case (Cons f fs)
  have "normCore (ticks m (tick m s f) fs) =
          foldl (\<lambda>c f. normCoreStep (resetNowSec f) (collectNowSec f) c) (normCore (tick m s f)) fs"
    using Cons.prems by (intro Cons.IH) simp_all
  then show ?case using Cons.prems by (simp add: ticks_def tick_norm)
qed

lemma lockoutTrace_norm:
  "normCore (ticks m (startProcessing True (setNormalizationEnabled True bootState)) (lockoutTrace n)) =
     foldl (\<lambda>c i. normCoreStep (real i / 15) (real i / 15) c) (False, True, False, 0, 0) [0..<n]"
proof -
  let ?init = "startProcessing True (setNormalizationEnabled True bootState)"
  have "normCore (ticks m ?init (lockoutTrace n)) =
          foldl (\<lambda>c f. normCoreStep (resetNowSec f) (collectNowSec f) c) (normCore ?init) (lockoutTrace n)"
    by (rule ticks_norm)
       (simp_all add: startProcessing_def lockoutTrace_def plainFrame_def)
  also have "normCore ?init = (False, True, False, 0, 0)"
    by (simp add: normCore_def startProcessing_def setNormalizationEnabled_def bootState_def)
  finally show ?thesis
    by (simp add: lockoutTrace_def foldl_map plainFrame_def)
qed

lemma js_identity_norm: "js_div (js_sub v (Fin 0)) (Fin 1) = v"
  by (cases v) (simp_all add: js_sub_def inf_of_sign_def)

lemma map_selectors: "map (\<lambda>i. (ks ! i) x) [0..<length ks] = map (\<lambda>k. k x) ks"
  by (rule nth_equalityI) simp_all

lemma normRow_identity:
  "baselineStats_mu s = None \<Longrightarrow> baselineStats_sigma s = None \<Longrightarrow> normRow s raw = rawToVector raw"
  by (simp add: normRow_def rawToVector_def stat_or_def js_identity_norm FEAT_LEN_def map_selectors)

lemma tick_row:
  assumes "runningFlag s" "face f"
  shows "last (featBuf (tick m s f)) = normRow (beforePush f s) (tickRaw f s)"
  using assms by (cases "featBuf s") (auto simp add: tick_featBuf)

text \<open>
  \<^verbatim>\<open>finalizeNorm\<close> itself, entered with \<^verbatim>\<open>normMode\<close> true, does what the specification
  says: it refuses fewer than 60 samples and otherwise stores the means and deviations.
\<close>

lemma finalizeNorm_when_collecting:
  assumes "normMode s"
  shows "baseCnt s < MIN_ACCEPTED \<Longrightarrow> finalizeNorm s = (False, s)"
    and "MIN_ACCEPTED \<le> baseCnt s \<Longrightarrow> i < FEAT_LEN \<Longrightarrow>
         fst (finalizeNorm s) \<and>
         stat_or (baselineStats_mu (snd (finalizeNorm s))) i (Fin 0) =
           js_div (baseSum s ! i) (Fin (real (baseCnt s))) \<and>
         stat_or (baselineStats_sigma (snd (finalizeNorm s))) i (Fin 1) =
           js_sqrt (js_max (Fin 0.000001)
             (js_sub (js_div (baseSqSum s ! i) (Fin (real (baseCnt s))))
                (js_mul (js_div (baseSum s ! i) (Fin (real (baseCnt s))))
                        (js_div (baseSum s ! i) (Fin (real (baseCnt s)))))))"
  using assms by (simp_all add: finalizeNorm_def Let_def stat_or_def)

text \<open>
  Claim C9. With normalisation enabled, a session of frames at 15 per second collects
  until the frame at 10.0 s: before it 150 samples are counted and collection is on;
  after it 151 samples (at least 60) are counted, collection is off, and yet no mean and
  no deviation is stored, so the row of the next tick is the raw feature vector, not
  (raw - mean) / max(0.001, stddev).
\<close>

theorem C9_statistics_never_finalized:
  "let s0 = startProcessing True (setNormalizationEnabled True bootState);
       s150 = ticks m s0 (lockoutTrace 150);
       s151 = ticks m s0 (lockoutTrace 151);
       f = plainFrame (151 / 15) (Fin 0.9)
   in normMode s150 \<and> baseCnt s150 = 150 \<and>
      \<not> normMode s151 \<and> baseCnt s151 = 151 \<and> MIN_ACCEPTED \<le> baseCnt s151 \<and>
      baselineStats_mu s151 = None \<and> baselineStats_sigma s151 = None \<and>
      last (featBuf (tick m s151 f)) = rawToVector (tickRaw f s151)"
proof -
  let ?init = "startProcessing True (setNormalizationEnabled True bootState)"
  let ?s = "ticks m ?init (lockoutTrace 151)"
  let ?f = "plainFrame (151 / 15) (Fin 0.9)"
  have a: "normCore (ticks m ?init (lockoutTrace 150)) = (True, True, True, 0, 150)"
    unfolding lockoutTrace_norm by (rule n150)
  have b: "normCore ?s = (True, True, False, 0, 151)"
    unfolding lockoutTrace_norm by (rule n151)
  have stats0: "baselineStats_mu ?init = None" "baselineStats_sigma ?init = None"
    by (simp_all add: startProcessing_def setNormalizationEnabled_def bootState_def)
  have keep: "baselineStats_mu (ticks m s fs) = baselineStats_mu s \<and>
              baselineStats_sigma (ticks m s fs) = baselineStats_sigma s" for s fs
    by (induction fs arbitrary: s) (simp_all add: ticks_def)
  have stats: "baselineStats_mu ?s = None" "baselineStats_sigma ?s = None"
    using keep [of ?init "lockoutTrace 151"] stats0 by simp_all
  have run: "runningFlag ?s" by (simp add: startProcessing_def)
  have face: "face ?f" by (simp add: plainFrame_def)
  have row: "last (featBuf (tick m ?s ?f)) = rawToVector (tickRaw ?f ?s)"
    using stats by (simp add: tick_row [OF run face] normRow_identity)
  show ?thesis
    unfolding Let_def using a b stats row by (simp add: normCore_def MIN_ACCEPTED_def)
qed

subsection \<open>Feature assembly\<close>

lemma stage_pose_frame [simp]:
  "angleBufs (afterNod f s) = angleBufs (beforeEye f s)"
  "deltaEMA (afterNod f s) = deltaEMA (beforeEye f s)"
  "angleBufs (beforePush f s) = angleBufs (beforeEye f s)"
  "deltaEMA (beforePush f s) = deltaEMA (beforeEye f s)"
  "angleBufs (beforeTcn f s) = angleBufs (beforeEye f s)"
  "deltaEMA (beforeTcn f s) = deltaEMA (beforeEye f s)"
  by (simp_all add: afterNod_def beforePush_def beforeTcn_def)

lemma tick_pose:
  assumes "runningFlag s" "face f"
  shows "angleBufs (tick m s f) Yaw = fst (smoothDelta (angleBufs s Yaw) (deltaEMA s Yaw) (yawDeg f))"
    and "deltaEMA (tick m s f) Yaw = snd (smoothDelta (angleBufs s Yaw) (deltaEMA s Yaw) (yawDeg f))"
  using assms
  by (simp_all add: tick_def onResults_stages)
     (simp_all add: beforeEye_def getSmoothDelta_def Let_def)

lemma tickRaw_pose:
  "yaw_adj (tickRaw f s) = yawDeg f"
  "dyaw_adj_per_s (tickRaw f s) = snd (smoothDelta (angleBufs s Yaw) (deltaEMA s Yaw) (yawDeg f))"
  by (simp_all add: tickRaw_def buildRawFeatures_def featureObj_def getSmoothDelta_def Let_def)

lemma rawToVector_nth:
  "hd (rawToVector raw) = yaw_adj raw"
  "rawToVector raw ! 3 = dyaw_adj_per_s raw"
  by (simp_all add: rawToVector_def FEAT_ORDER_def)

lemma buildRawFeatures_guarded:
  "isFinite (eye_open_unified (buildRawFeatures obj))"
  "isFinite (ema_eye_open_1s (buildRawFeatures obj))"
  "isFinite (ema_eye_open_5s (buildRawFeatures obj))"
  "isFinite (eye_open_trend_3s (buildRawFeatures obj))"
  "isFinite (eye_close_dur_s (buildRawFeatures obj))"
  "isFinite (eye_run_len_frames (buildRawFeatures obj))"
  "isFinite (perclos_30s (buildRawFeatures obj))"
  "isFinite (blink_rate_30s (buildRawFeatures obj))"
  "isFinite (max_close_run_10s (buildRawFeatures obj))"
  "isFinite (time_since_last_blink_s (buildRawFeatures obj))"
  "isFinite (yawn_prob_ema_1s (buildRawFeatures obj))"
  "isFinite (mouth_open_run_s (buildRawFeatures obj))"
  "isFinite (mouth_open_rate_30s (buildRawFeatures obj))"
  "isFinite (time_since_last_yawn_s (buildRawFeatures obj))"
  by (simp_all add: buildRawFeatures_def finiteOr_def)

lemma buildRawFeatures_pose:
  "yaw_adj (buildRawFeatures obj) = yawDeg_o obj"
  "pitch_adj (buildRawFeatures obj) = pitchDeg_o obj"
  "roll_adj (buildRawFeatures obj) = rollDeg_o obj"
  "dyaw_adj_per_s (buildRawFeatures obj) = dYaw_o obj"
  "dpitch_adj_per_s (buildRawFeatures obj) = dPitch_o obj"
  "droll_adj_per_s (buildRawFeatures obj) = dRoll_o obj"
  by (simp_all add: buildRawFeatures_def)

text \<open>
  Claim C2. \<^verbatim>\<open>buildRawFeatures\<close> passes the three angles and their rates through
  without \<^verbatim>\<open>finiteOr\<close>. A frame whose yaw is \<^verbatim>\<open>NaN\<close> gives a feature vector whose first
  entry is \<^verbatim>\<open>NaN\<close>, not the default 0.0, and on the next frame the yaw rate is \<^verbatim>\<open>NaN\<close>
  as well.
\<close>

theorem C2_pose_features_not_defaulted:
  "let s0 = startProcessing True bootState;
       f1 = poseFrame 0 NaN;
       s1 = tick m s0 f1;
       f2 = poseFrame (1 / 15) (Fin 0)
   in yaw_adj (tickRaw f1 s0) = NaN \<and> \<not> isFinite (yaw_adj (tickRaw f1 s0)) \<and>
      hd (last (featBuf (tick m s0 f1))) = NaN \<and>
      dyaw_adj_per_s (tickRaw f2 s1) = NaN \<and>
      last (featBuf (tick m s1 f2)) ! 3 = NaN"
proof -
  let ?init = "startProcessing True bootState"
  let ?f1 = "poseFrame 0 NaN"
  let ?s1 = "tick m ?init ?f1"
  let ?f2 = "poseFrame (1 / 15) (Fin 0)"
  have run: "runningFlag ?init" "runningFlag ?s1" by (simp_all add: startProcessing_def)
  have face: "face ?f1" "face ?f2" by (simp_all add: poseFrame_def plainFrame_def)
  have stats: "baselineStats_mu ?init = None" "baselineStats_sigma ?init = None"
    by (simp_all add: startProcessing_def bootState_def)
  have yaw: "yawDeg ?f1 = NaN" "yawDeg ?f2 = Fin 0" by (simp_all add: poseFrame_def)
  have pose0: "angleBufs ?init Yaw = []" "deltaEMA ?init Yaw = Fin 0"
    by (simp_all add: startProcessing_def bootState_def)
  have pose1: "angleBufs ?s1 Yaw = [NaN]" "deltaEMA ?s1 Yaw = Fin 0"
    by (simp_all add: tick_pose [OF run(1) face(1)] pose0 yaw smoothDelta_def Let_def MAXN_def)
  have d2: "dyaw_adj_per_s (tickRaw ?f2 ?s1) = NaN"
    by (simp add: tickRaw_pose pose1 yaw smoothDelta_def Let_def MAXN_def js_sub_def)
  have row1: "last (featBuf (tick m ?init ?f1)) = rawToVector (tickRaw ?f1 ?init)"
    using stats by (simp add: tick_row [OF run(1) face(1)] normRow_identity)
  have row2: "last (featBuf (tick m ?s1 ?f2)) = rawToVector (tickRaw ?f2 ?s1)"
    using stats by (simp add: tick_row [OF run(2) face(2)] normRow_identity)
  show ?thesis
    unfolding Let_def row1 row2 rawToVector_nth d2
    by (simp add: tickRaw_pose yaw)
qed

subsection \<open>Session reset\<close>

lemma startProcessing_keeps:
  "angleBufs (startProcessing c s) = angleBufs s"
  "deltaEMA (startProcessing c s) = deltaEMA s"
  "baselineStats_mu (startProcessing c s) = baselineStats_mu s"
  "baselineStats_sigma (startProcessing c s) = baselineStats_sigma s"
  by (simp_all add: startProcessing_def)

text \<open>
  Claim C3. \<^verbatim>\<open>startProcessing\<close> does not reset \<^verbatim>\<open>angleBufs\<close> and \<^verbatim>\<open>deltaEMA\<close>. After a
  session of two frames with yaw 0 and 30 degrees, a new session starts with the yaw
  history [0, 30] and the smoothed rate 135 of the old one, where a first session starts
  with an empty history and rate 0; the yaw-rate feature of the first frame of the new
  session is 162 instead of 0.
\<close>

theorem C3_restart_keeps_pose_smoothing:
  "let s0 = startProcessing True bootState;
       s1 = ticks m s0 [poseFrame 0 (Fin 0), poseFrame (1 / 15) (Fin 30)];
       s2 = startProcessing True (stopProcessing s1);
       f = poseFrame 2 (Fin 30)
   in angleBufs s0 Yaw = [] \<and> deltaEMA s0 Yaw = Fin 0 \<and>
      angleBufs s2 Yaw = [Fin 0, Fin 30] \<and> deltaEMA s2 Yaw = Fin 135 \<and>
      last (featBuf (tick m s0 f)) ! 3 = Fin 0 \<and>
      last (featBuf (tick m s2 f)) ! 3 = Fin 162"
proof -
  let ?init = "startProcessing True bootState"
  let ?fa = "poseFrame 0 (Fin 0)"
  let ?fb = "poseFrame (1 / 15) (Fin 30)"
  let ?f = "poseFrame 2 (Fin 30)"
  let ?sa = "tick m ?init ?fa"
  let ?sb = "tick m ?sa ?fb"
  let ?again = "startProcessing True (stopProcessing ?sb)"
  have run: "runningFlag ?init" "runningFlag ?sa" "runningFlag ?again"
    by (simp_all add: startProcessing_def)
  have face: "face ?fa" "face ?fb" "face ?f" by (simp_all add: poseFrame_def plainFrame_def)
  have yaw: "yawDeg ?fa = Fin 0" "yawDeg ?fb = Fin 30" "yawDeg ?f = Fin 30"
    by (simp_all add: poseFrame_def)
  have pose0: "angleBufs ?init Yaw = []" "deltaEMA ?init Yaw = Fin 0"
    by (simp_all add: startProcessing_def bootState_def)
  have posea: "angleBufs ?sa Yaw = [Fin 0]" "deltaEMA ?sa Yaw = Fin 0"
    by (simp_all add: tick_pose [OF run(1) face(1)] pose0 yaw smoothDelta_def Let_def MAXN_def)
  have poseb: "angleBufs ?sb Yaw = [Fin 0, Fin 30]" "deltaEMA ?sb Yaw = Fin 135"
    by (simp_all add: tick_pose [OF run(2) face(2)] posea yaw smoothDelta_def Let_def MAXN_def
          DT_FIXED_def js_sub_def)
  have pose2: "angleBufs ?again Yaw = [Fin 0, Fin 30]" "deltaEMA ?again Yaw = Fin 135"
    using poseb by (simp_all add: startProcessing_keeps stopProcessing_def)
  have stats: "baselineStats_mu ?init = None" "baselineStats_sigma ?init = None"
    "baselineStats_mu ?again = None" "baselineStats_sigma ?again = None"
    by (simp_all add: startProcessing_keeps stopProcessing_def)
       (simp_all add: startProcessing_def bootState_def)
  have row0: "last (featBuf (tick m ?init ?f)) = rawToVector (tickRaw ?f ?init)"
    using stats by (simp add: tick_row [OF run(1) face(3)] normRow_identity)
  have row2: "last (featBuf (tick m ?again ?f)) = rawToVector (tickRaw ?f ?again)"
    using stats by (simp add: tick_row [OF run(3) face(3)] normRow_identity)
  have d0: "dyaw_adj_per_s (tickRaw ?f ?init) = Fin 0"
    by (simp add: tickRaw_pose pose0 yaw smoothDelta_def Let_def MAXN_def)
  have d2: "dyaw_adj_per_s (tickRaw ?f ?again) = Fin 162"
    by (simp add: tickRaw_pose pose2 yaw smoothDelta_def Let_def MAXN_def DT_FIXED_def js_sub_def)
  have two: "ticks m ?init [?fa, ?fb] = ?sb" by (simp add: ticks_def)
  show ?thesis
    unfolding Let_def two row0 row2 rawToVector_nth d0 d2
    using pose0 pose2 by simp
qed


end
